theory Spec2Isabelle
  imports Complex_Main "HOL-Library.Word"
begin

section \<open>JavaScript strings\<close>

text \<open>
  A JavaScript string is a sequence of UTF-16 code units; \<open>length\<close>, \<open>trim\<close> and a regular
  expression without the \<open>u\<close> flag all work on code units. String literals of the source are
  ASCII and are written \<open>js ''...''\<close>.
\<close>

type_synonym code_unit = "16 word"
type_synonym jsstring = "code_unit list"

definition js :: "string \<Rightarrow> jsstring" where
  "js s = map (\<lambda>c. of_nat (of_char c)) s"

text \<open>Truthiness of a string (\<open>if (s)\<close>, \<open>!s\<close>, \<open>s || d\<close>): the empty string is falsy.\<close>

definition truthy :: "jsstring \<Rightarrow> bool" where
  "truthy s = (s \<noteq> [])"

text \<open>\<open>x || ''\<close> for \<open>x\<close> a string or \<open>undefined\<close> (the result of an optional chain).\<close>

definition or_empty :: "jsstring option \<Rightarrow> jsstring" where
  "or_empty x = (case x of None \<Rightarrow> [] | Some s \<Rightarrow> if truthy s then s else [])"

text \<open>\<open>x || false\<close> for \<open>x\<close> a boolean or \<open>undefined\<close>.\<close>

definition or_false :: "bool option \<Rightarrow> bool" where
  "or_false x = (case x of None \<Rightarrow> False | Some b \<Rightarrow> if b then b else False)"

text \<open>
  A parameter with a default value, \<open>f(x = v)\<close>: the argument is \<open>None\<close> when the caller
  leaves it out, and the default then takes its place.
\<close>

definition or_default :: "'a \<Rightarrow> 'a option \<Rightarrow> 'a" where
  "or_default v x = (case x of None \<Rightarrow> v | Some y \<Rightarrow> y)"

section \<open>Exceptions and numbers\<close>

text \<open>
  The exceptions the browser raises in the operations used here. A function that may throw
  returns \<open>Inl\<close> of the exception or \<open>Inr\<close> of its result, next to the document as the call
  leaves it: what was written before the exception stays written.
\<close>

datatype exn =
  SecurityError | QuotaExceededError | SyntaxError | TypeError
  | InvalidStateError | InvalidCharacterError

text \<open>
  A JavaScript number is \<open>NaN\<close>, an infinity or a finite value; the finite values are
  rationals. \<open>length_less n m\<close> is \<open>n < m\<close> and \<open>length_at_least n m\<close> is \<open>n >= m\<close> for a
  string length \<open>n\<close>: both are false when \<open>m\<close> is \<open>NaN\<close>.
\<close>

datatype number = NaN | NegativeInfinity | Finite rat | PositiveInfinity

fun length_less :: "nat \<Rightarrow> number \<Rightarrow> bool" where
  "length_less n NaN = False"
| "length_less n NegativeInfinity = False"
| "length_less n (Finite r) = (of_nat n < r)"
| "length_less n PositiveInfinity = True"

fun length_at_least :: "nat \<Rightarrow> number \<Rightarrow> bool" where
  "length_at_least n NaN = False"
| "length_at_least n NegativeInfinity = True"
| "length_at_least n (Finite r) = (r \<le> of_nat n)"
| "length_at_least n PositiveInfinity = False"

section \<open>The document\<close>

text \<open>
  The DOM is modelled as far as the utilities of \<open>domUtils.ts\<close> observe it. An element is
  the record of the properties the utilities read or write; a property an element does not
  have reads as \<open>undefined\<close>, which every getter here turns into \<open>''\<close> or \<open>false\<close>, so it is
  kept as \<open>''\<close> or \<open>False\<close>. Each field holds what reading the property returns.
  \<open>classList\<close> is the ordered set of class tokens.

  What an assignment stores depends on the property and on the element:
  \<^item> \<open>value\<close>: the element's value mode decides (below);
  \<^item> \<open>src\<close>: an image reads back the URL resolved against the document, any other element
    the string assigned;
  \<^item> \<open>innerHTML\<close>: the string is parsed and the children it makes are serialised on reading;
    the text of these children is what \<open>textContent\<close> then reads;
  \<^item> \<open>textContent\<close>: reads back as assigned, and \<open>innerHTML\<close> then reads the serialised text;
  \<^item> \<open>checked\<close>, \<open>disabled\<close>, the style properties: the value assigned.
  URL resolution and the HTML parser and serialiser are the browser's and are parameters
  of the model, kept with the document (\<open>engine\<close>).

  An element that \<open>document.getElementById\<close> can find is identified by its id: no utility
  changes an id. The elements kept are those inside \<open>document.body\<close>; a document whose body
  does not exist yet (\<open>document.body\<close> is \<open>null\<close>) has none to find. Which element is inside
  which is not represented: the properties of different elements are independent, and what
  replacing, appending or removing children changes for ids other than the element's own is
  left to the browser (the last three parameters of \<open>engine\<close>). Nodes made by
  \<open>document.createElement\<close> have no id and are numbered in the order of their creation.
\<close>

subsection \<open>Assigning to value\<close>

definition line_break :: "code_unit \<Rightarrow> bool" where
  "line_break c = (c = 0x000A \<or> c = 0x000D)"

definition ascii_space :: "code_unit \<Rightarrow> bool" where
  "ascii_space c = (c \<in> set [0x0009, 0x000A, 0x000C, 0x000D, 0x0020])"

definition strip_line_breaks :: "jsstring \<Rightarrow> jsstring" where
  "strip_line_breaks s = filter (\<lambda>c. \<not> line_break c) s"

definition strip_ascii_space :: "jsstring \<Rightarrow> jsstring" where
  "strip_ascii_space s = rev (dropWhile ascii_space (rev (dropWhile ascii_space s)))"

fun normalise_line_breaks :: "jsstring \<Rightarrow> jsstring" where
  "normalise_line_breaks [] = []"
| "normalise_line_breaks [c] = [if c = 0x000D then 0x000A else c]"
| "normalise_line_breaks (c # c' # s) =
     (if c = 0x000D \<and> c' = 0x000A then 0x000A # normalise_line_breaks s
      else if c = 0x000D then 0x000A # normalise_line_breaks (c' # s)
      else c # normalise_line_breaks (c' # s))"

text \<open>
  The value modes of HTML:
  \<^item> \<open>Verbatim\<close>: the string is stored as assigned (\<open>input\<close> of type hidden, checkbox, radio,
    submit, image, reset, button; an element that has no \<open>value\<close> of its own);
  \<^item> \<open>Text\<close>: line breaks are stripped (type text, search, tel, password);
  \<^item> \<open>UrlOrEmail\<close>: line breaks are stripped, then leading and trailing ASCII white space
    (type url, email);
  \<^item> \<open>Algorithm f\<close>: the type's own value sanitisation \<open>f\<close>, taken as given (type number,
    range, color, date and the other date and time types, email with \<open>multiple\<close>);
  \<^item> \<open>File\<close>: the empty string clears the selection, any other string throws
    \<open>InvalidStateError\<close> (type file);
  \<^item> \<open>Textarea\<close>: line breaks are normalised to line feeds.
\<close>

datatype value_mode =
  Verbatim | Text | UrlOrEmail | Algorithm "jsstring \<Rightarrow> jsstring" | File | Textarea

fun assign_value :: "value_mode \<Rightarrow> jsstring \<Rightarrow> exn + jsstring" where
  "assign_value Verbatim v = Inr v"
| "assign_value Text v = Inr (strip_line_breaks v)"
| "assign_value UrlOrEmail v = Inr (strip_ascii_space (strip_line_breaks v))"
| "assign_value (Algorithm f) v = Inr (f v)"
| "assign_value File v = (if v = [] then Inr [] else Inl InvalidStateError)"
| "assign_value Textarea v = Inr (normalise_line_breaks v)"

subsection \<open>Elements and the document\<close>

record element =
  el_tag :: jsstring
  el_value_mode :: value_mode
  el_src_resolved :: bool
  el_value :: jsstring
  el_checked :: bool
  el_textContent :: jsstring
  el_src :: jsstring
  el_classList :: "jsstring list"
  el_innerHTML :: jsstring
  el_disabled :: bool
  el_opacity :: jsstring
  el_transform :: jsstring

text \<open>
  The browser's part. \<open>innerHTML_read tag s\<close> is what \<open>innerHTML\<close> reads after \<open>s\<close> was
  assigned to it on an element with that tag, \<open>innerHTML_text tag s\<close> what \<open>textContent\<close> reads
  then, \<open>textContent_html tag t\<close> what \<open>innerHTML\<close> reads after \<open>t\<close> was assigned to
  \<open>textContent\<close>, \<open>resolve_url s\<close> what an image's \<open>src\<close> reads after \<open>s\<close> was assigned.
  \<open>found_after_replace ident s\<close>, \<open>found_after_append e\<close> and \<open>found_after_remove e\<close> turn
  what \<open>getElementById\<close> finds into what it finds once the children of the element \<open>ident\<close> were
  replaced by the parse of \<open>s\<close>, once the node \<open>e\<close> was appended to the body, and once
  it was removed from it.
\<close>

record engine =
  innerHTML_read :: "jsstring \<Rightarrow> jsstring \<Rightarrow> jsstring"
  innerHTML_text :: "jsstring \<Rightarrow> jsstring \<Rightarrow> jsstring"
  textContent_html :: "jsstring \<Rightarrow> jsstring \<Rightarrow> jsstring"
  resolve_url :: "jsstring \<Rightarrow> jsstring"
  found_after_replace ::
    "jsstring \<Rightarrow> jsstring \<Rightarrow> (jsstring \<rightharpoonup> element) \<Rightarrow> (jsstring \<rightharpoonup> element)"
  found_after_append :: "element \<Rightarrow> (jsstring \<rightharpoonup> element) \<Rightarrow> (jsstring \<rightharpoonup> element)"
  found_after_remove :: "element \<Rightarrow> (jsstring \<rightharpoonup> element) \<Rightarrow> (jsstring \<rightharpoonup> element)"

text \<open>The two callbacks that \<open>showNotification\<close> hands to \<open>setTimeout\<close>, each closed over its node.\<close>

datatype task = FadeOut nat | Detach nat

record document =
  engine :: engine
  has_body :: bool
  elements :: "jsstring \<rightharpoonup> element"
  body_overflow :: jsstring
  created :: "nat \<rightharpoonup> element"
  created_count :: nat
  body_children :: "nat list"
  timers :: "(number \<times> task) list"

text \<open>
  \<open>has_body\<close> says that \<open>document.body\<close> is not \<open>null\<close>; \<open>elements\<close> are the elements of the
  body by id; \<open>body_overflow\<close> is \<open>document.body.style.overflow\<close>; \<open>body_children\<close> lists the
  created nodes that are children of \<open>document.body\<close>, in document order; \<open>timers\<close> are the
  pending \<open>setTimeout\<close> calls, each with its delay in milliseconds.
\<close>

definition getElementById :: "jsstring \<Rightarrow> document \<Rightarrow> element option" where
  "getElementById ident d = (if has_body d then elements d ident else None)"

text \<open>Writing back the element found under an id, after a property of it was assigned.\<close>

definition store_element :: "jsstring \<Rightarrow> element \<Rightarrow> document \<Rightarrow> document" where
  "store_element ident e d = d\<lparr>elements := (elements d)(ident \<mapsto> e)\<rparr>"

text \<open>\<open>e.innerHTML = s\<close> and \<open>e.textContent = t\<close>, as far as they change \<open>e\<close> itself.\<close>

definition innerHTML_assigned :: "engine \<Rightarrow> jsstring \<Rightarrow> element \<Rightarrow> element" where
  "innerHTML_assigned g s e =
     e\<lparr>el_innerHTML := innerHTML_read g (el_tag e) s,
       el_textContent := innerHTML_text g (el_tag e) s\<rparr>"

definition textContent_assigned :: "engine \<Rightarrow> jsstring \<Rightarrow> element \<Rightarrow> element" where
  "textContent_assigned g t e =
     e\<lparr>el_textContent := t, el_innerHTML := textContent_html g (el_tag e) t\<rparr>"

text \<open>
  The same for the element found under \<open>ident\<close> in the document: its children are replaced,
  and the element itself stays where it is.
\<close>

definition replace_children :: "jsstring \<Rightarrow> jsstring \<Rightarrow> element \<Rightarrow> document \<Rightarrow> document" where
  "replace_children ident s e d =
     store_element ident e (d\<lparr>elements := found_after_replace (engine d) ident s (elements d)\<rparr>)"

subsection \<open>classList\<close>

text \<open>
  \<open>add\<close>, \<open>remove\<close> and \<open>toggle\<close> throw \<open>SyntaxError\<close> for the empty token and
  \<open>InvalidCharacterError\<close> for a token with ASCII white space in it; \<open>contains\<close> takes any
  string.
\<close>

definition token_error :: "jsstring \<Rightarrow> exn option" where
  "token_error c =
     (if c = [] then Some SyntaxError
      else if list_ex ascii_space c then Some InvalidCharacterError
      else None)"

definition classList_contains :: "jsstring \<Rightarrow> jsstring list \<Rightarrow> bool" where
  "classList_contains c cl = (c \<in> set cl)"

definition classList_add :: "jsstring \<Rightarrow> jsstring list \<Rightarrow> jsstring list" where
  "classList_add c cl = (if c \<in> set cl then cl else cl @ [c])"

definition classList_remove :: "jsstring \<Rightarrow> jsstring list \<Rightarrow> jsstring list" where
  "classList_remove c cl = removeAll c cl"

definition classList_toggle :: "jsstring \<Rightarrow> jsstring list \<Rightarrow> jsstring list" where
  "classList_toggle c cl = (if c \<in> set cl then removeAll c cl else cl @ [c])"

section \<open>Getters and setters\<close>

definition getInputValue :: "jsstring \<Rightarrow> document \<Rightarrow> jsstring" where
  "getInputValue ident d = or_empty (map_option el_value (getElementById ident d))"

definition setInputValue :: "jsstring \<Rightarrow> jsstring \<Rightarrow> document \<Rightarrow> (exn + bool) \<times> document" where
  "setInputValue ident v d =
     (case getElementById ident d of
        Some e \<Rightarrow>
          (case assign_value (el_value_mode e) v of
             Inr stored \<Rightarrow> (Inr True, store_element ident (e\<lparr>el_value := stored\<rparr>) d)
           | Inl x \<Rightarrow> (Inl x, d))
      | None \<Rightarrow> (Inr False, d))"

definition getTextareaValue :: "jsstring \<Rightarrow> document \<Rightarrow> jsstring" where
  "getTextareaValue ident d = or_empty (map_option el_value (getElementById ident d))"

definition setTextareaValue :: "jsstring \<Rightarrow> jsstring \<Rightarrow> document \<Rightarrow> (exn + bool) \<times> document" where
  "setTextareaValue ident v d =
     (case getElementById ident d of
        Some e \<Rightarrow>
          (case assign_value (el_value_mode e) v of
             Inr stored \<Rightarrow> (Inr True, store_element ident (e\<lparr>el_value := stored\<rparr>) d)
           | Inl x \<Rightarrow> (Inl x, d))
      | None \<Rightarrow> (Inr False, d))"

definition getCheckboxValue :: "jsstring \<Rightarrow> document \<Rightarrow> bool" where
  "getCheckboxValue ident d = or_false (map_option el_checked (getElementById ident d))"

definition setCheckboxValue :: "jsstring \<Rightarrow> bool \<Rightarrow> document \<Rightarrow> bool \<times> document" where
  "setCheckboxValue ident c d =
     (case getElementById ident d of
        Some e \<Rightarrow> (True, store_element ident (e\<lparr>el_checked := c\<rparr>) d)
      | None \<Rightarrow> (False, d))"

definition getTextContent :: "jsstring \<Rightarrow> document \<Rightarrow> jsstring" where
  "getTextContent ident d = or_empty (map_option el_textContent (getElementById ident d))"

definition setTextContent :: "jsstring \<Rightarrow> jsstring \<Rightarrow> document \<Rightarrow> bool \<times> document" where
  "setTextContent ident t d =
     (case getElementById ident d of
        Some e \<Rightarrow>
          (True,
           replace_children ident (textContent_html (engine d) (el_tag e) t)
             (textContent_assigned (engine d) t e) d)
      | None \<Rightarrow> (False, d))"

definition getImageSrc :: "jsstring \<Rightarrow> document \<Rightarrow> jsstring" where
  "getImageSrc ident d = or_empty (map_option el_src (getElementById ident d))"

definition setImageSrc :: "jsstring \<Rightarrow> jsstring \<Rightarrow> document \<Rightarrow> bool \<times> document" where
  "setImageSrc ident s d =
     (case getElementById ident d of
        Some e \<Rightarrow>
          (True,
           store_element ident
             (e\<lparr>el_src := (if el_src_resolved e then resolve_url (engine d) s else s)\<rparr>) d)
      | None \<Rightarrow> (False, d))"

definition addClass :: "jsstring \<Rightarrow> jsstring \<Rightarrow> document \<Rightarrow> (exn + bool) \<times> document" where
  "addClass ident className d =
     (case getElementById ident d of
        Some e \<Rightarrow>
          (case token_error className of
             Some x \<Rightarrow> (Inl x, d)
           | None \<Rightarrow>
               (Inr True,
                store_element ident
                  (e\<lparr>el_classList := classList_add className (el_classList e)\<rparr>) d))
      | None \<Rightarrow> (Inr False, d))"

definition removeClass :: "jsstring \<Rightarrow> jsstring \<Rightarrow> document \<Rightarrow> (exn + bool) \<times> document" where
  "removeClass ident className d =
     (case getElementById ident d of
        Some e \<Rightarrow>
          (case token_error className of
             Some x \<Rightarrow> (Inl x, d)
           | None \<Rightarrow>
               (Inr True,
                store_element ident
                  (e\<lparr>el_classList := classList_remove className (el_classList e)\<rparr>) d))
      | None \<Rightarrow> (Inr False, d))"

definition toggleClass :: "jsstring \<Rightarrow> jsstring \<Rightarrow> document \<Rightarrow> (exn + bool) \<times> document" where
  "toggleClass ident className d =
     (case getElementById ident d of
        Some e \<Rightarrow>
          (case token_error className of
             Some x \<Rightarrow> (Inl x, d)
           | None \<Rightarrow>
               (Inr True,
                store_element ident
                  (e\<lparr>el_classList := classList_toggle className (el_classList e)\<rparr>) d))
      | None \<Rightarrow> (Inr False, d))"

definition hasClass :: "jsstring \<Rightarrow> jsstring \<Rightarrow> document \<Rightarrow> bool" where
  "hasClass ident className d =
     or_false (map_option (\<lambda>e. classList_contains className (el_classList e)) (getElementById ident d))"

section \<open>ModalUtils\<close>

text \<open>
  \<open>hidden\<close> is a valid class token, and where the modal element was found the body exists:
  neither \<open>classList\<close> nor \<open>document.body\<close> throws here.
\<close>

definition ModalUtils_show :: "jsstring \<Rightarrow> document \<Rightarrow> bool \<times> document" where
  "ModalUtils_show modalId d =
     (case getElementById modalId d of
        Some modal \<Rightarrow>
          (True,
           (store_element modalId
              (modal\<lparr>el_classList := classList_remove (js ''hidden'') (el_classList modal)\<rparr>) d)
            \<lparr>body_overflow := js ''hidden''\<rparr>)
      | None \<Rightarrow> (False, d))"

definition ModalUtils_hide :: "jsstring \<Rightarrow> document \<Rightarrow> bool \<times> document" where
  "ModalUtils_hide modalId d =
     (case getElementById modalId d of
        Some modal \<Rightarrow>
          (True,
           (store_element modalId
              (modal\<lparr>el_classList := classList_add (js ''hidden'') (el_classList modal)\<rparr>) d)
            \<lparr>body_overflow := js ''auto''\<rparr>)
      | None \<Rightarrow> (False, d))"

section \<open>LoadingUtils\<close>

text \<open>
  The handle returned by the loading utilities is an object with one method, \<open>restore\<close>,
  a closure over the element and its captured state; it is modelled as the effect of calling
  it, a function from document to document, which finds the element under its id. \<open>null\<close>
  is \<open>None\<close>.
\<close>

definition spinner :: jsstring where
  "spinner = js ''<i class=\"fas fa-spinner fa-spin mr-2\"></i>''"

definition assign_element :: "jsstring \<Rightarrow> (element \<Rightarrow> element) \<Rightarrow> document \<Rightarrow> document" where
  "assign_element ident f d =
     (case getElementById ident d of Some e \<Rightarrow> store_element ident (f e) d | None \<Rightarrow> d)"

definition assign_innerHTML :: "jsstring \<Rightarrow> jsstring \<Rightarrow> document \<Rightarrow> document" where
  "assign_innerHTML ident s d =
     (case getElementById ident d of
        Some e \<Rightarrow> replace_children ident s (innerHTML_assigned (engine d) s e) d
      | None \<Rightarrow> d)"

text \<open>The two \<open>restore\<close> closures, each with what it captured.\<close>

definition restore_button :: "jsstring \<Rightarrow> jsstring \<Rightarrow> bool \<Rightarrow> document \<Rightarrow> document" where
  "restore_button buttonId originalText wasDisabled d =
     assign_element buttonId (\<lambda>b. b\<lparr>el_disabled := wasDisabled\<rparr>)
       (assign_innerHTML buttonId originalText d)"

definition restore_element :: "jsstring \<Rightarrow> jsstring \<Rightarrow> document \<Rightarrow> document" where
  "restore_element elementId originalContent d = assign_innerHTML elementId originalContent d"

definition setButtonLoading ::
  "jsstring \<Rightarrow> jsstring option \<Rightarrow> document \<Rightarrow> (document \<Rightarrow> document) option \<times> document" where
  "setButtonLoading buttonId loadingText_opt d =
     (let loadingText = or_default (js ''Loading...'') loadingText_opt in
      case getElementById buttonId d of
        None \<Rightarrow> (None, d)
      | Some button \<Rightarrow>
          (let originalText = el_innerHTML button;
               wasDisabled = el_disabled button;
               d1 = assign_innerHTML buttonId (spinner @ loadingText) d;
               d2 = assign_element buttonId (\<lambda>b. b\<lparr>el_disabled := True\<rparr>) d1
           in (Some (restore_button buttonId originalText wasDisabled), d2)))"

definition setElementLoading ::
  "jsstring \<Rightarrow> jsstring option \<Rightarrow> document \<Rightarrow> (document \<Rightarrow> document) option \<times> document" where
  "setElementLoading elementId loadingText_opt d =
     (let loadingText = or_default (js ''Loading...'') loadingText_opt in
      case getElementById elementId d of
        None \<Rightarrow> (None, d)
      | Some e \<Rightarrow>
          (let originalContent = el_innerHTML e;
               d1 = assign_innerHTML elementId (spinner @ loadingText) d
           in (Some (restore_element elementId originalContent), d1)))"

section \<open>Notifications\<close>

text \<open>
  \<open>document.createElement('div')\<close> returns a new element with every property at its initial
  value; the node gets the next creation number.
\<close>

definition blank :: element where
  "blank = \<lparr>el_tag = js ''DIV'', el_value_mode = Verbatim, el_src_resolved = False,
            el_value = [], el_checked = False, el_textContent = [], el_src = [],
            el_classList = [], el_innerHTML = [], el_disabled = False,
            el_opacity = [], el_transform = []\<rparr>"






definition assign_created :: "nat \<Rightarrow> (element \<Rightarrow> element) \<Rightarrow> document \<Rightarrow> document" where
  "assign_created n f d =
     (case created d n of Some e \<Rightarrow> d\<lparr>created := (created d)(n \<mapsto> f e)\<rparr> | None \<Rightarrow> d)"


definition has_parentNode :: "nat \<Rightarrow> document \<Rightarrow> bool" where
  "has_parentNode n d = (n \<in> set (body_children d))"






section \<open>Regular expressions\<close>

text \<open>
  The regular expressions of the source use character classes, concatenation and \<open>+\<close> only,
  so \<open>RegExp.prototype.test\<close> decides membership in a regular language. The matcher works by
  derivatives: \<open>deriv c r\<close> matches what \<open>r\<close> matches after a leading \<open>c\<close>.
\<close>

datatype regex =
  Never | Eps | Class "code_unit \<Rightarrow> bool" | Alt regex regex | Seq regex regex | Star regex

fun nullable :: "regex \<Rightarrow> bool" where
  "nullable Never = False"
| "nullable Eps = True"
| "nullable (Class p) = False"
| "nullable (Alt a b) = (nullable a \<or> nullable b)"
| "nullable (Seq a b) = (nullable a \<and> nullable b)"
| "nullable (Star a) = True"

fun deriv :: "code_unit \<Rightarrow> regex \<Rightarrow> regex" where
  "deriv c Never = Never"
| "deriv c Eps = Never"
| "deriv c (Class p) = (if p c then Eps else Never)"
| "deriv c (Alt a b) = Alt (deriv c a) (deriv c b)"
| "deriv c (Seq a b) =
     (if nullable a then Alt (Seq (deriv c a) b) (deriv c b) else Seq (deriv c a) b)"
| "deriv c (Star a) = Seq (deriv c a) (Star a)"

fun derivs :: "jsstring \<Rightarrow> regex \<Rightarrow> regex" where
  "derivs [] r = r"
| "derivs (c # s) r = derivs s (deriv c r)"

text \<open>\<open>/^r$/.test(s)\<close>: the whole string matches.\<close>

definition test_whole :: "regex \<Rightarrow> jsstring \<Rightarrow> bool" where
  "test_whole r s = nullable (derivs s r)"

definition any_unit :: regex where
  "any_unit = Class (\<lambda>c. True)"

text \<open>\<open>/r/.test(s)\<close>: some part of the string matches.\<close>

definition test_search :: "regex \<Rightarrow> jsstring \<Rightarrow> bool" where
  "test_search r s = test_whole (Seq (Star any_unit) (Seq r (Star any_unit))) s"

definition one_or_more :: "regex \<Rightarrow> regex" where
  "one_or_more r = Seq r (Star r)"

text \<open>The language of a regular expression, against which the matcher is proved.\<close>

inductive_set repeated :: "jsstring set \<Rightarrow> jsstring set" for A :: "jsstring set" where
  none: "[] \<in> repeated A"
| more: "u \<in> A \<Longrightarrow> v \<in> repeated A \<Longrightarrow> u @ v \<in> repeated A"

fun lang :: "regex \<Rightarrow> jsstring set" where
  "lang Never = {}"
| "lang Eps = {[]}"
| "lang (Class p) = {[c] | c. p c}"
| "lang (Alt a b) = lang a \<union> lang b"
| "lang (Seq a b) = {u @ v | u v. u \<in> lang a \<and> v \<in> lang b}"
| "lang (Star a) = repeated (lang a)"

subsection \<open>Character classes and trim\<close>

text \<open>
  White space is what \<open>\s\<close> matches and what \<open>trim\<close> strips: the ECMAScript WhiteSpace and
  LineTerminator code points, all of them single code units.
\<close>

definition is_space :: "code_unit \<Rightarrow> bool" where
  "is_space c =
     (c \<in> set [0x0009, 0x000A, 0x000B, 0x000C, 0x000D, 0x0020, 0x00A0, 0x1680,
                0x2028, 0x2029, 0x202F, 0x205F, 0x3000, 0xFEFF]
      \<or> (0x2000 \<le> c \<and> c \<le> 0x200A))"

definition is_letter :: "code_unit \<Rightarrow> bool" where
  "is_letter c = ((0x41 \<le> c \<and> c \<le> 0x5A) \<or> (0x61 \<le> c \<and> c \<le> 0x7A))"

definition is_digit :: "code_unit \<Rightarrow> bool" where
  "is_digit c = (0x30 \<le> c \<and> c \<le> 0x39)"

definition at_sign :: code_unit where
  "at_sign = 0x40"

definition full_stop :: code_unit where
  "full_stop = 0x2E"

definition trim :: "jsstring \<Rightarrow> jsstring" where
  "trim s = rev (dropWhile is_space (rev (dropWhile is_space s)))"

section \<open>FormUtils\<close>

text \<open>\<open>xs.push(x)\<close>.\<close>

definition push :: "'a \<Rightarrow> 'a list \<Rightarrow> 'a list" where
  "push x xs = xs @ [x]"

record required_result =
  required_isValid :: bool
  missingFields :: "jsstring list"

fun validateRequired_loop :: "jsstring list \<Rightarrow> document \<Rightarrow> jsstring list \<Rightarrow> jsstring list" where
  "validateRequired_loop [] d missing = missing"
| "validateRequired_loop (ident # ids) d missing =
     (let v = trim (getInputValue ident d)
      in validateRequired_loop ids d (if \<not> truthy v then push ident missing else missing))"

definition validateRequired :: "jsstring list \<Rightarrow> document \<Rightarrow> required_result" where
  "validateRequired ids d =
     (let missing = validateRequired_loop ids d []
      in \<lparr>required_isValid = (length missing = 0), missingFields = missing\<rparr>)"

text \<open>\<open>/^[^\s@]+@[^\s@]+\.[^\s@]+$/\<close>\<close>

definition not_space_at :: regex where
  "not_space_at = Class (\<lambda>c. \<not> (is_space c \<or> c = at_sign))"

definition emailRegex :: regex where
  "emailRegex =
     Seq (one_or_more not_space_at)
       (Seq (Class (\<lambda>c. c = at_sign))
          (Seq (one_or_more not_space_at)
             (Seq (Class (\<lambda>c. c = full_stop)) (one_or_more not_space_at))))"

definition validateEmail :: "jsstring \<Rightarrow> bool" where
  "validateEmail email = test_whole emailRegex email"

text \<open>
  A number in a template literal. An integer below \<open>2^53\<close> in magnitude prints as its
  decimal numeral, \<open>NaN\<close> and the infinities by name; how any other number prints (a
  fraction, the rounded digits of a larger integer, the exponent form from \<open>1e21\<close> on) is
  the parameter \<open>other\<close>.
\<close>

fun digits :: "nat \<Rightarrow> jsstring" where
  "digits n = (if n < 10 then [0x30 + of_nat n] else digits (n div 10) @ [0x30 + of_nat (n mod 10)])"

definition integer_to_string :: "int \<Rightarrow> jsstring" where
  "integer_to_string i = (if i < 0 then 0x2D # digits (nat (- i)) else digits (nat i))"

fun number_to_string :: "(rat \<Rightarrow> jsstring) \<Rightarrow> number \<Rightarrow> jsstring" where
  "number_to_string other NaN = js ''NaN''"
| "number_to_string other NegativeInfinity = js ''-Infinity''"
| "number_to_string other PositiveInfinity = js ''Infinity''"
| "number_to_string other (Finite r) =
     (if r = of_int \<lfloor>r\<rfloor> \<and> \<bar>r\<bar> < 2 ^ 53 then integer_to_string \<lfloor>r\<rfloor> else other r)"

record validation =
  isValid :: bool
  errors :: "jsstring list"

definition too_short :: "(rat \<Rightarrow> jsstring) \<Rightarrow> number \<Rightarrow> jsstring" where
  "too_short other minLength =
     js ''Password minimal '' @ number_to_string other minLength @ js '' karakter''"

definition no_letter :: jsstring where
  "no_letter = js ''Password harus mengandung huruf''"

definition no_digit :: jsstring where
  "no_digit = js ''Password harus mengandung angka''"

definition validatePassword ::
  "(rat \<Rightarrow> jsstring) \<Rightarrow> jsstring \<Rightarrow> number option \<Rightarrow> validation" where
  "validatePassword other password minLength_opt =
     (let minLength = or_default (Finite 8) minLength_opt;
          errors0 = [];
          errors1 = (if length_less (length password) minLength
                     then push (too_short other minLength) errors0 else errors0);
          errors2 = (if \<not> test_search (Class is_letter) password
                     then push no_letter errors1 else errors1);
          errors3 = (if \<not> test_search (Class is_digit) password
                     then push no_digit errors2 else errors2)
      in \<lparr>isValid = (length errors3 = 0), errors = errors3\<rparr>)"

section \<open>ProfileFormUtils\<close>

record ProfileFormData =
  fullName :: jsstring
  position :: jsstring
  email :: jsstring
  phone :: jsstring
  location :: jsstring
  address :: jsstring
  twoFactorAuth :: bool
  profileImage :: "jsstring option"

text \<open>\<open>Partial<ProfileFormData>\<close>: every field may be missing (\<open>undefined\<close>).\<close>

record PartialProfileFormData =
  fullName_opt :: "jsstring option"
  position_opt :: "jsstring option"
  email_opt :: "jsstring option"
  phone_opt :: "jsstring option"
  location_opt :: "jsstring option"
  address_opt :: "jsstring option"
  twoFactorAuth_opt :: "bool option"
  profileImage_opt :: "jsstring option"

text \<open>A field that is missing or holds the empty string: the falsy values of a string field.\<close>

definition falsy :: "jsstring option \<Rightarrow> bool" where
  "falsy x = (case x of None \<Rightarrow> True | Some v \<Rightarrow> \<not> truthy v)"

text \<open>
  A statement whose value is dropped: it completes (\<open>Inr ()\<close>) or throws. \<open>then_run\<close> is
  the semicolon: the second statement runs where the first completed.
\<close>

type_synonym statement = "document \<Rightarrow> (exn + unit) \<times> document"

definition then_run :: "statement \<Rightarrow> statement \<Rightarrow> statement" where
  "then_run s t d = (case s d of (Inl x, d') \<Rightarrow> (Inl x, d') | (Inr u, d') \<Rightarrow> t d')"

text \<open>\<open>if (x) set(id, x);\<close> for a string or \<open>undefined\<close> \<open>x\<close>, with a setter that may throw.\<close>

definition if_truthy ::
  "jsstring option \<Rightarrow> (jsstring \<Rightarrow> document \<Rightarrow> (exn + bool) \<times> document) \<Rightarrow> statement" where
  "if_truthy x setter d =
     (case x of
        None \<Rightarrow> (Inr (), d)
      | Some v \<Rightarrow>
          if truthy v
          then (case setter v d of (Inl e, d') \<Rightarrow> (Inl e, d') | (Inr b, d') \<Rightarrow> (Inr (), d'))
          else (Inr (), d))"

text \<open>The same with a setter that does not throw.\<close>

definition if_truthy_total ::
  "jsstring option \<Rightarrow> (jsstring \<Rightarrow> document \<Rightarrow> bool \<times> document) \<Rightarrow> statement" where
  "if_truthy_total x setter d =
     (case x of
        None \<Rightarrow> (Inr (), d)
      | Some v \<Rightarrow> if truthy v then (Inr (), snd (setter v d)) else (Inr (), d))"

text \<open>\<open>if (x !== undefined) set(id, x);\<close>\<close>

definition if_defined ::
  "bool option \<Rightarrow> (bool \<Rightarrow> document \<Rightarrow> bool \<times> document) \<Rightarrow> statement" where
  "if_defined x setter d = (case x of None \<Rightarrow> (Inr (), d) | Some v \<Rightarrow> (Inr (), snd (setter v d)))"

definition setFormData :: "PartialProfileFormData \<Rightarrow> statement" where
  "setFormData data =
     then_run (if_truthy (fullName_opt data) (setInputValue (js ''modalFullName'')))
    (then_run (if_truthy (position_opt data) (setInputValue (js ''modalPosition'')))
    (then_run (if_truthy (email_opt data) (setInputValue (js ''modalEmail'')))
    (then_run (if_truthy (phone_opt data) (setInputValue (js ''modalPhone'')))
    (then_run (if_truthy (location_opt data) (setInputValue (js ''modalLocation'')))
    (then_run (if_truthy (address_opt data) (setTextareaValue (js ''modalAddress'')))
    (then_run (if_defined (twoFactorAuth_opt data) (setCheckboxValue (js ''modalTwoFactorAuth'')))
              (if_truthy_total (profileImage_opt data) (setImageSrc (js ''modalProfileImage'')))))))))"

text \<open>The text fields of the form, each with the value \<open>setFormData\<close> takes for it.\<close>

definition text_fields :: "PartialProfileFormData \<Rightarrow> (jsstring \<times> jsstring option) list" where
  "text_fields data =
     [(js ''modalFullName'', fullName_opt data), (js ''modalPosition'', position_opt data),
      (js ''modalEmail'', email_opt data), (js ''modalPhone'', phone_opt data),
      (js ''modalLocation'', location_opt data), (js ''modalAddress'', address_opt data)]"

definition email_required :: jsstring where
  "email_required = js ''Email wajib diisi''"

definition email_format :: jsstring where
  "email_format = js ''Format email tidak valid''"

definition validateForm :: "ProfileFormData \<Rightarrow> validation" where
  "validateForm data =
     (let errors0 = [];
          errors1 = (if \<not> truthy (trim (fullName data))
                     then push (js ''Nama lengkap wajib diisi'') errors0 else errors0);
          errors2 = (if \<not> truthy (trim (position data))
                     then push (js ''Jabatan wajib diisi'') errors1 else errors1);
          errors3 = (if \<not> truthy (trim (email data))
                     then push email_required errors2 else errors2);
          errors4 = (if \<not> truthy (trim (phone data))
                     then push (js ''Nomor telepon wajib diisi'') errors3 else errors3);
          errors5 = (if truthy (email data) \<and> \<not> validateEmail (email data)
                     then push email_format errors4 else errors4)
      in \<lparr>isValid = (length errors5 = 0), errors = errors5\<rparr>)"

section \<open>StorageUtils\<close>

text \<open>
  \<open>localStorage\<close> and \<open>JSON\<close> belong to the browser. Their operations are parameters of the
  model, and each may throw: \<open>Inl\<close> is the exception, \<open>Inr\<close> the result. A storage operation
  that throws leaves the storage as it was. \<open>getItem\<close> returns \<open>null\<close> (\<open>None\<close>) for a key
  that is not stored; \<open>JSON.stringify\<close> returns \<open>undefined\<close> (\<open>None\<close>) for a value that has
  no JSON text, which \<open>setItem\<close> then stores as the string \<open>undefined\<close>.
\<close>

datatype json =
  JNull | JBool bool | JNumber int | JString jsstring
  | JArray "json list" | JObject "(jsstring \<times> json) list"









section \<open>A sample page and a sample browser\<close>

text \<open>
  A small document on which the utilities are run on concrete inputs, and the same
  document before its body exists. Its engine does what a browser does on the strings
  used below: the HTML parser drops a line feed that directly follows a \<open><pre>\<close> start
  tag, and these strings read back as they are otherwise; none of them has an element with
  an id in it.
\<close>

fun drop_pre_line_feed :: "jsstring \<Rightarrow> jsstring" where
  "drop_pre_line_feed (a # b # c # e # f # g # s) =
     (if [a, b, c, e, f] = js ''<pre>'' \<and> g = 0x000A
      then a # b # c # e # f # drop_pre_line_feed s
      else a # drop_pre_line_feed (b # c # e # f # g # s))"
| "drop_pre_line_feed s = s"

definition sample_engine :: engine where
  "sample_engine =
     \<lparr>innerHTML_read = (\<lambda>tag s. drop_pre_line_feed s),
      innerHTML_text = (\<lambda>tag s. []),
      textContent_html = (\<lambda>tag t. t),
      resolve_url = (\<lambda>s. js ''https://desa.example/'' @ s),
      found_after_replace = (\<lambda>ident s found. found),
      found_after_append = (\<lambda>e found. found),
      found_after_remove = (\<lambda>e found. found)\<rparr>"

definition page :: document where
  "page = \<lparr>engine = sample_engine, has_body = True,
           elements =
             [js ''modalFullName'' \<mapsto>
                blank\<lparr>el_tag := js ''INPUT'', el_value_mode := Text, el_value := js ''Siti''\<rparr>,
              js ''modalEmail'' \<mapsto>
                blank\<lparr>el_tag := js ''INPUT'', el_value_mode := Text, el_value := js ''  ''\<rparr>,
              js ''modalTwoFactorAuth'' \<mapsto> blank\<lparr>el_tag := js ''INPUT''\<rparr>,
              js ''modalUpload'' \<mapsto> blank\<lparr>el_tag := js ''INPUT'', el_value_mode := File\<rparr>,
              js ''saveBtn'' \<mapsto> blank\<lparr>el_tag := js ''BUTTON'', el_innerHTML := js ''Simpan''\<rparr>,
              js ''codeBtn'' \<mapsto>
                blank\<lparr>el_tag := js ''BUTTON'', el_innerHTML := js ''<pre>\<newline>x</pre>''\<rparr>,
              js ''editModal'' \<mapsto> blank\<lparr>el_classList := [js ''modal'', js ''hidden'']\<rparr>],
           body_overflow = [], created = Map.empty, created_count = 0,
           body_children = [], timers = []\<rparr>"


text \<open>How the sample prints a number that is not a small integer: it is never asked to.\<close>

definition sample_numeral :: "rat \<Rightarrow> jsstring" where
  "sample_numeral r = []"


section \<open>Facts about the document\<close>

lemma found_has_body: "getElementById i d = Some e \<Longrightarrow> has_body d"
  by (simp add: getElementById_def split: if_splits)

lemma has_body_store: "has_body (store_element j e d) = has_body d"
  by (simp add: store_element_def)

lemma lookup_store:
  "getElementById i (store_element j e d)
     = (if has_body d then (if i = j then Some e else getElementById i d) else None)"
  by (simp add: getElementById_def store_element_def)

lemma store_twice:
  "store_element i e (store_element i e' d) = store_element i e d"
  by (simp add: store_element_def)

lemma store_same:
  "getElementById i d = Some e \<Longrightarrow> store_element i e d = d"
  by (simp add: getElementById_def store_element_def map_upd_triv split: if_splits)

section \<open>The matcher decides the language\<close>

lemma nullable_lang: "nullable r \<longleftrightarrow> [] \<in> lang r"
  by (induction r) (auto intro: repeated.none)

lemma lang_SeqI: "u \<in> lang a \<Longrightarrow> v \<in> lang b \<Longrightarrow> u @ v \<in> lang (Seq a b)"
  by (simp only: lang.simps) blast

lemma repeated_cons_elim:
  assumes "w \<in> repeated A" and "w = c # t"
  shows "\<exists>u v. t = u @ v \<and> c # u \<in> A \<and> v \<in> repeated A"
  using assms
proof (induction rule: repeated.induct)
  case none
  then show ?case by simp
next
  case (more u v)
  show ?case
  proof (cases u)
    case Nil
    with more show ?thesis by simp
  next
    case (Cons x xs)
    with more.prems have "x = c" and "t = xs @ v" by simp_all
    with Cons more.hyps show ?thesis by blast
  qed
qed

lemma repeated_cons_iff:
  "c # t \<in> repeated A \<longleftrightarrow> (\<exists>u v. t = u @ v \<and> c # u \<in> A \<and> v \<in> repeated A)"
proof
  assume "c # t \<in> repeated A"
  then show "\<exists>u v. t = u @ v \<and> c # u \<in> A \<and> v \<in> repeated A"
    by (rule repeated_cons_elim) simp
next
  assume "\<exists>u v. t = u @ v \<and> c # u \<in> A \<and> v \<in> repeated A"
  then obtain u v where "t = u @ v" "c # u \<in> A" "v \<in> repeated A" by blast
  then show "c # t \<in> repeated A"
    using repeated.more [of "c # u" A v] by simp
qed

lemma lang_deriv: "t \<in> lang (deriv c r) \<longleftrightarrow> c # t \<in> lang r"
proof (induction r arbitrary: t)
  case (Seq a b)
  show ?case
  proof
    assume "t \<in> lang (deriv c (Seq a b))"
    then consider u v where "t = u @ v" "u \<in> lang (deriv c a)" "v \<in> lang b"
      | "nullable a" "t \<in> lang (deriv c b)"
      by (auto split: if_splits)
    then show "c # t \<in> lang (Seq a b)"
    proof cases
      case 1
      then have "c # u \<in> lang a" using Seq.IH(1) by simp
      with 1 have "(c # u) @ v \<in> lang (Seq a b)" by (intro lang_SeqI)
      with 1 show ?thesis by simp
    next
      case 2
      then have "[] \<in> lang a" "c # t \<in> lang b"
        using Seq.IH(2) nullable_lang by simp_all
      then have "[] @ (c # t) \<in> lang (Seq a b)" by (intro lang_SeqI)
      then show ?thesis by simp
    qed
  next
    assume "c # t \<in> lang (Seq a b)"
    then obtain u v where uv: "c # t = u @ v" "u \<in> lang a" "v \<in> lang b" by auto
    show "t \<in> lang (deriv c (Seq a b))"
    proof (cases u)
      case Nil
      with uv have "nullable a" "t \<in> lang (deriv c b)"
        using Seq.IH(2) nullable_lang by simp_all
      then show ?thesis by simp
    next
      case (Cons x xs)
      with uv have "t = xs @ v" "xs \<in> lang (deriv c a)"
        using Seq.IH(1) by simp_all
      with uv show ?thesis by auto
    qed
  qed
next
  case (Star a)
  show ?case
    using Star.IH by (auto simp: repeated_cons_iff)
qed auto

lemma test_whole_lang: "test_whole r s \<longleftrightarrow> s \<in> lang r"
  unfolding test_whole_def
  by (induction s arbitrary: r) (simp_all add: nullable_lang lang_deriv)

lemma repeated_any: "s \<in> repeated (lang any_unit)"
proof (induction s)
  case Nil
  show ?case by (rule repeated.none)
next
  case (Cons c s)
  have "[c] \<in> lang any_unit" by (simp add: any_unit_def)
  from repeated.more [OF this Cons] show ?case by simp
qed

lemma test_search_class:
  "test_search (Class p) s \<longleftrightarrow> (\<exists>c \<in> set s. p c)"
proof
  assume "test_search (Class p) s"
  then obtain u c v where "s = u @ [c] @ v" "p c"
    by (auto simp: test_search_def test_whole_lang)
  then show "\<exists>c \<in> set s. p c" by auto
next
  assume "\<exists>c \<in> set s. p c"
  then obtain c where "c \<in> set s" "p c" by blast
  then obtain u v where s: "s = u @ c # v" by (auto dest: split_list)
  have any: "w \<in> lang (Star any_unit)" for w
    using repeated_any [of w] by simp
  have "[c] \<in> lang (Class p)" using \<open>p c\<close> by simp
  then have "[c] @ v \<in> lang (Seq (Class p) (Star any_unit))"
    using any by (rule lang_SeqI)
  with any have "u @ ([c] @ v) \<in> lang (Seq (Star any_unit) (Seq (Class p) (Star any_unit)))"
    by (rule lang_SeqI)
  with s show "test_search (Class p) s"
    by (simp add: test_search_def test_whole_lang)
qed

lemma validateEmail_needs_at: "validateEmail s \<Longrightarrow> at_sign \<in> set s"
  by (auto simp: validateEmail_def test_whole_lang emailRegex_def)

lemma at_sign_not_space: "\<not> is_space at_sign"
  by (simp add: is_space_def at_sign_def)

lemma trim_all_space:
  assumes "list_all is_space s"
  shows "trim s = []"
proof -
  from assms have stripped: "dropWhile is_space s = []"
    by (simp add: list_all_iff)
  show ?thesis
    unfolding trim_def stripped by simp
qed

section \<open>Absent elements\<close>

text \<open>
  C1. For an id that no element of the document has, every getter returns its default
  (the empty string, or \<open>false\<close> for \<open>getCheckboxValue\<close> and \<open>hasClass\<close>), every setter,
  class operation and modal operation returns \<open>false\<close> (none of them throws), both loading utilities return \<open>null\<close>,
  and the document that comes back is the document that went in.
\<close>

theorem absent_element_defaults:
  assumes "getElementById ident d = None"
  shows "getInputValue ident d = [] \<and> getTextareaValue ident d = []
       \<and> getTextContent ident d = [] \<and> getImageSrc ident d = []
       \<and> getCheckboxValue ident d = False \<and> hasClass ident c d = False
       \<and> setInputValue ident v d = (Inr False, d) \<and> setTextareaValue ident v d = (Inr False, d)
       \<and> setCheckboxValue ident b d = (False, d) \<and> setTextContent ident v d = (False, d)
       \<and> setImageSrc ident v d = (False, d)
       \<and> addClass ident c d = (Inr False, d) \<and> removeClass ident c d = (Inr False, d)
       \<and> toggleClass ident c d = (Inr False, d)
       \<and> ModalUtils_show ident d = (False, d) \<and> ModalUtils_hide ident d = (False, d)
       \<and> setButtonLoading ident t d = (None, d) \<and> setElementLoading ident t d = (None, d)"
proof -
  have getters: "getInputValue ident d = []" "getTextareaValue ident d = []"
      "getTextContent ident d = []" "getImageSrc ident d = []"
      "getCheckboxValue ident d = False" "hasClass ident c d = False"
    using assms
    by (simp_all add: getInputValue_def getTextareaValue_def getTextContent_def getImageSrc_def
        getCheckboxValue_def hasClass_def or_empty_def or_false_def)
  have setters: "setInputValue ident v d = (Inr False, d)" "setTextareaValue ident v d = (Inr False, d)"
      "setCheckboxValue ident b d = (False, d)" "setTextContent ident v d = (False, d)"
      "setImageSrc ident v d = (False, d)"
    using assms
    by (simp_all add: setInputValue_def setTextareaValue_def setCheckboxValue_def
        setTextContent_def setImageSrc_def)
  have classes: "addClass ident c d = (Inr False, d)" "removeClass ident c d = (Inr False, d)"
      "toggleClass ident c d = (Inr False, d)"
    using assms by (simp_all add: addClass_def removeClass_def toggleClass_def)
  have modal: "ModalUtils_show ident d = (False, d)" "ModalUtils_hide ident d = (False, d)"
    using assms by (simp_all add: ModalUtils_show_def ModalUtils_hide_def)
  have loading: "setButtonLoading ident t d = (None, d)" "setElementLoading ident t d = (None, d)"
    using assms by (simp_all add: setButtonLoading_def setElementLoading_def)
  from getters setters classes modal loading show ?thesis by simp
qed

lemma page_no_such: "getElementById (js ''missing'') page = None"
  by (simp add: getElementById_def page_def js_def)

theorem absent_element_defaults_witness:
  "getElementById (js ''missing'') page = None
   \<and> getInputValue (js ''missing'') page = []
   \<and> getCheckboxValue (js ''missing'') page = False
   \<and> setInputValue (js ''missing'') (js ''x'') page = (Inr False, page)
   \<and> toggleClass (js ''missing'') (js ''hidden'') page = (Inr False, page)
   \<and> ModalUtils_show (js ''missing'') page = (False, page)
   \<and> setButtonLoading (js ''missing'') None page = (None, page)"
  using absent_element_defaults [OF page_no_such, of _ "js ''x''" _ None] page_no_such
  by simp

section \<open>ModalUtils.show and ModalUtils.hide\<close>




section \<open>validateRequired\<close>

lemma validateRequired_loop_filter:
  "validateRequired_loop ids d missing
     = missing @ filter (\<lambda>ident. trim (getInputValue ident d) = []) ids"
  by (induction ids arbitrary: missing) (simp_all add: push_def truthy_def Let_def)

text \<open>
  C7. \<open>FormUtils.validateRequired\<close> returns as \<open>missingFields\<close> exactly the given ids, in the
  given order, whose input value trims to the empty string; an id without an element counts,
  its value being the empty string; \<open>isValid\<close> holds exactly when \<open>missingFields\<close> is empty.
\<close>

theorem validateRequired_missing:
  "missingFields (validateRequired ids d)
     = filter (\<lambda>ident. trim (getInputValue ident d) = []) ids
   \<and> required_isValid (validateRequired ids d) = (missingFields (validateRequired ids d) = [])
   \<and> (getElementById ident d = None \<longrightarrow> trim (getInputValue ident d) = [])"
  by (simp add: validateRequired_def validateRequired_loop_filter Let_def getInputValue_def
      or_empty_def trim_def)

theorem validateRequired_missing_witness:
  "getElementById (js ''nope'') page = None
   \<and> validateRequired [js ''modalFullName'', js ''nope'', js ''modalEmail''] page
     = \<lparr>required_isValid = False, missingFields = [js ''nope'', js ''modalEmail'']\<rparr>"
proof -
  have absent: "getElementById (js ''nope'') page = None"
    by (simp add: getElementById_def page_def js_def)
  have "trim (getInputValue (js ''nope'') page) = []"
    using validateRequired_missing [of "[]" page "js ''nope''"] absent by simp
  moreover have "trim (getInputValue (js ''modalEmail'') page) = []"
    by (simp add: getInputValue_def getElementById_def page_def js_def or_empty_def truthy_def
        trim_def is_space_def)
  moreover have "trim (getInputValue (js ''modalFullName'') page) \<noteq> []"
    by (simp add: getInputValue_def getElementById_def page_def js_def or_empty_def truthy_def
        trim_def is_space_def)
  ultimately show ?thesis
    using validateRequired_missing [of "[js ''modalFullName'', js ''nope'', js ''modalEmail'']" page "js ''nope''"]
      absent
    by (simp add: required_result.equality)
qed

section \<open>validateForm on a blank email\<close>

text \<open>
  C9. When the email of the form data is not empty and consists of white space only,
  \<open>ProfileFormUtils.validateForm\<close> reports both \<open>Email wajib diisi\<close> (the trimmed email is
  empty) and \<open>Format email tidak valid\<close> (the email is truthy and does not match the regular
  expression), and \<open>isValid\<close> is \<open>false\<close>.
\<close>

theorem validateForm_blank_email:
  assumes "email data \<noteq> []" and "list_all is_space (email data)"
  shows "email_required \<in> set (errors (validateForm data))
       \<and> email_format \<in> set (errors (validateForm data))
       \<and> isValid (validateForm data) = False"
proof -
  have "trim (email data) = []"
    using assms(2) by (rule trim_all_space)
  moreover have "\<not> validateEmail (email data)"
  proof
    assume "validateEmail (email data)"
    then have "at_sign \<in> set (email data)" by (rule validateEmail_needs_at)
    with assms(2) have "is_space at_sign" by (simp add: list_all_iff)
    with at_sign_not_space show False by simp
  qed
  ultimately show ?thesis
    using assms(1) by (simp add: validateForm_def Let_def push_def truthy_def)
qed

theorem validateForm_blank_email_witness:
  "email \<lparr>fullName = js ''Siti'', position = js ''Admin'', email = js ''  '', phone = js ''0812'',
            location = [], address = [], twoFactorAuth = False, profileImage = None\<rparr> \<noteq> []
   \<and> list_all is_space (js ''  '')
   \<and> email_required \<in> set (errors (validateForm
        \<lparr>fullName = js ''Siti'', position = js ''Admin'', email = js ''  '', phone = js ''0812'',
         location = [], address = [], twoFactorAuth = False, profileImage = None\<rparr>))
   \<and> email_format \<in> set (errors (validateForm
        \<lparr>fullName = js ''Siti'', position = js ''Admin'', email = js ''  '', phone = js ''0812'',
         location = [], address = [], twoFactorAuth = False, profileImage = None\<rparr>))
   \<and> \<not> isValid (validateForm
        \<lparr>fullName = js ''Siti'', position = js ''Admin'', email = js ''  '', phone = js ''0812'',
         location = [], address = [], twoFactorAuth = False, profileImage = None\<rparr>)"
proof -
  let ?data = "\<lparr>fullName = js ''Siti'', position = js ''Admin'', email = js ''  '',
      phone = js ''0812'', location = [], address = [], twoFactorAuth = False,
      profileImage = None\<rparr>"
  have filled: "email ?data \<noteq> []" by (simp add: js_def)
  have spaces: "list_all is_space (email ?data)" by (simp add: js_def is_space_def)
  from validateForm_blank_email [OF filled spaces] filled spaces show ?thesis by simp
qed

section \<open>StorageUtils over a throwing storage\<close>




section \<open>validatePassword\<close>

lemma length_less_at_least: "m \<noteq> NaN \<Longrightarrow> length_less n m = (\<not> length_at_least n m)"
  by (cases m) auto

text \<open>
  C2. \<open>minLength\<close> is a JavaScript number. The \<open>errors\<close> list of
  \<open>FormUtils.validatePassword\<close> holds one message per failing check, in the order length,
  letter, digit, where the length check fails exactly when \<open>password.length < minLength\<close>
  (default 8) is true; \<open>isValid\<close> holds exactly when \<open>errors\<close> is empty. When \<open>minLength\<close> is
  not \<open>NaN\<close>, \<open>isValid\<close> holds exactly when the password has at least \<open>minLength\<close> code
  units, a letter of \<open>[A-Za-z]\<close> and a digit of \<open>[0-9]\<close>. The message of the length check
  prints \<open>minLength\<close> as JavaScript prints a number; the digits of an integer below \<open>2 ^ 53\<close>
  are fixed here, every other number is printed by the parameter \<open>other\<close>.
\<close>

theorem validatePassword_checks:
  "(or_default (Finite 8) minLength_opt \<noteq> NaN \<longrightarrow>
      isValid (validatePassword other password minLength_opt)
        = (length_at_least (length password) (or_default (Finite 8) minLength_opt)
           \<and> (\<exists>c \<in> set password. is_letter c)
           \<and> (\<exists>c \<in> set password. is_digit c)))
   \<and> errors (validatePassword other password minLength_opt)
     = (if length_less (length password) (or_default (Finite 8) minLength_opt)
        then [too_short other (or_default (Finite 8) minLength_opt)] else [])
       @ (if \<exists>c \<in> set password. is_letter c then [] else [no_letter])
       @ (if \<exists>c \<in> set password. is_digit c then [] else [no_digit])
   \<and> isValid (validatePassword other password minLength_opt)
     = (errors (validatePassword other password minLength_opt) = [])"
proof -
  have errs: "errors (validatePassword other password minLength_opt)
     = (if length_less (length password) (or_default (Finite 8) minLength_opt)
        then [too_short other (or_default (Finite 8) minLength_opt)] else [])
       @ (if \<exists>c \<in> set password. is_letter c then [] else [no_letter])
       @ (if \<exists>c \<in> set password. is_digit c then [] else [no_digit])"
    by (simp add: validatePassword_def test_search_class push_def Let_def)
  have valid: "isValid (validatePassword other password minLength_opt)
     = (errors (validatePassword other password minLength_opt) = [])"
    by (simp add: validatePassword_def Let_def)
  have "isValid (validatePassword other password minLength_opt)
        = (length_at_least (length password) (or_default (Finite 8) minLength_opt)
           \<and> (\<exists>c \<in> set password. is_letter c)
           \<and> (\<exists>c \<in> set password. is_digit c))"
    if "or_default (Finite 8) minLength_opt \<noteq> NaN"
    unfolding valid errs using length_less_at_least [OF that, of "length password"]
    by auto
  with errs valid show ?thesis by blast
qed

theorem validatePassword_checks_witness:
  "or_default (Finite 8) None \<noteq> NaN
   \<and> isValid (validatePassword sample_numeral (js ''rahasia123'') None)
   \<and> errors (validatePassword sample_numeral (js ''rahasia123'') None) = []
   \<and> \<not> isValid (validatePassword sample_numeral (js ''abc'') None)
   \<and> errors (validatePassword sample_numeral (js ''abc'') None)
       = [too_short sample_numeral (Finite 8), no_digit]
   \<and> errors (validatePassword sample_numeral (js ''12'') (Some (Finite (5 / 2))))
       = [too_short sample_numeral (Finite (5 / 2)), no_letter]
   \<and> too_short sample_numeral (Finite 8) = js ''Password minimal 8 karakter''"
proof -
  have msg: "too_short sample_numeral (Finite 8) = js ''Password minimal 8 karakter''"
    by (simp add: too_short_def integer_to_string_def js_def)
  show ?thesis
    using validatePassword_checks [of None sample_numeral "js ''rahasia123''"]
      validatePassword_checks [of None sample_numeral "js ''abc''"]
      validatePassword_checks [of "Some (Finite (5 / 2))" sample_numeral "js ''12''"]
      msg
    by (simp add: js_def or_default_def is_letter_def is_digit_def)
qed

theorem validatePassword_NaN_counterexample:
  "isValid (validatePassword sample_numeral (js ''a1'') (Some NaN))
   \<and> \<not> length_at_least (length (js ''a1'')) NaN
   \<and> isValid (validatePassword sample_numeral (js ''a1'') (Some NaN))
       \<noteq> (length_at_least (length (js ''a1'')) NaN
          \<and> (\<exists>c \<in> set (js ''a1''). is_letter c)
          \<and> (\<exists>c \<in> set (js ''a1''). is_digit c))"
  by (simp add: validatePassword_def test_search_class push_def Let_def or_default_def js_def
      is_letter_def is_digit_def)

section \<open>Setting and getting an input value\<close>

text \<open>
  C3. For an id whose element exists, \<open>setInputValue(id, v)\<close> returns \<open>true\<close> and
  \<open>getInputValue(id)\<close> then returns \<open>v\<close> whenever the element's value sanitisation leaves
  \<open>v\<close> as it is; that is so for every \<open>v\<close> on an element that keeps the value verbatim, and
  for every \<open>v\<close> without a line feed or carriage return on a text input. In general the call
  returns \<open>true\<close> and \<open>getInputValue\<close> returns the sanitised value; where the assignment
  throws (a file input given a non-empty string), the exception leaves \<open>setInputValue\<close> and the
  document is unchanged.
\<close>

theorem set_get_input_roundtrip:
  assumes "getElementById ident d = Some e"
  shows "(assign_value (el_value_mode e) v = Inr v \<longrightarrow>
            fst (setInputValue ident v d) = Inr True
          \<and> getInputValue ident (snd (setInputValue ident v d)) = v)
       \<and> (el_value_mode e = Verbatim \<longrightarrow> assign_value (el_value_mode e) v = Inr v)
       \<and> (el_value_mode e = Text \<and> \<not> list_ex line_break v \<longrightarrow>
            assign_value (el_value_mode e) v = Inr v)
       \<and> (assign_value (el_value_mode e) v = Inr stored \<longrightarrow>
            fst (setInputValue ident v d) = Inr True
          \<and> getInputValue ident (snd (setInputValue ident v d)) = stored)
       \<and> (assign_value (el_value_mode e) v = Inl x \<longrightarrow>
            setInputValue ident v d = (Inl x, d))"
proof -
  note body = found_has_body [OF assms]
  have general: "fst (setInputValue ident v d) = Inr True
          \<and> getInputValue ident (snd (setInputValue ident v d)) = w"
    if "assign_value (el_value_mode e) v = Inr w" for w
    using assms body that
    by (simp add: setInputValue_def getInputValue_def lookup_store or_empty_def truthy_def)
  have thrown: "setInputValue ident v d = (Inl x, d)"
    if "assign_value (el_value_mode e) v = Inl x"
    using assms that by (simp add: setInputValue_def)
  have plain: "assign_value (el_value_mode e) v = Inr v" if "el_value_mode e = Verbatim"
    using that by simp
  have typed: "assign_value (el_value_mode e) v = Inr v"
    if "el_value_mode e = Text \<and> \<not> list_ex line_break v"
    using that by (simp add: strip_line_breaks_def list_ex_iff)
  from general [of v] general [of stored] thrown plain typed show ?thesis by blast
qed

lemma page_fullName:
  "getElementById (js ''modalFullName'') page
     = Some (blank\<lparr>el_tag := js ''INPUT'', el_value_mode := Text, el_value := js ''Siti''\<rparr>)"
  by (simp add: getElementById_def page_def js_def)

lemma page_upload:
  "getElementById (js ''modalUpload'') page
     = Some (blank\<lparr>el_tag := js ''INPUT'', el_value_mode := File\<rparr>)"
  by (simp add: getElementById_def page_def js_def)

theorem set_get_input_roundtrip_witness:
  "getElementById (js ''modalFullName'') page
     = Some (blank\<lparr>el_tag := js ''INPUT'', el_value_mode := Text, el_value := js ''Siti''\<rparr>)
   \<and> \<not> list_ex line_break (js ''Budi'')
   \<and> assign_value Text (js ''Budi'') = Inr (js ''Budi'')
   \<and> fst (setInputValue (js ''modalFullName'') (js ''Budi'') page) = Inr True
   \<and> getInputValue (js ''modalFullName'')
        (snd (setInputValue (js ''modalFullName'') (js ''Budi'') page)) = js ''Budi''
   \<and> assign_value File (js ''x'') = Inl InvalidStateError
   \<and> setInputValue (js ''modalUpload'') (js ''x'') page = (Inl InvalidStateError, page)"
proof -
  have clean: "\<not> list_ex line_break (js ''Budi'')"
    by (simp add: js_def line_break_def)
  have refused: "assign_value File (js ''x'') = Inl InvalidStateError"
    by (simp add: js_def)
  from set_get_input_roundtrip [OF page_fullName, of "js ''Budi''" "js ''Budi''" InvalidStateError]
    set_get_input_roundtrip [OF page_upload, of "js ''x''" "[]" InvalidStateError]
    clean refused page_fullName
  show ?thesis by simp
qed

theorem set_get_input_counterexample:
  "getElementById (js ''modalFullName'') page
     = Some (blank\<lparr>el_tag := js ''INPUT'', el_value_mode := Text, el_value := js ''Siti''\<rparr>)
   \<and> fst (setInputValue (js ''modalFullName'') [0x61, 0x0A, 0x62] page) = Inr True
   \<and> getInputValue (js ''modalFullName'')
        (snd (setInputValue (js ''modalFullName'') [0x61, 0x0A, 0x62] page)) = [0x61, 0x62]
   \<and> getInputValue (js ''modalFullName'')
        (snd (setInputValue (js ''modalFullName'') [0x61, 0x0A, 0x62] page)) \<noteq> [0x61, 0x0A, 0x62]
   \<and> getElementById (js ''modalUpload'') page
     = Some (blank\<lparr>el_tag := js ''INPUT'', el_value_mode := File\<rparr>)
   \<and> fst (setInputValue (js ''modalUpload'') (js ''x'') page) = Inl InvalidStateError"
  using page_fullName page_upload found_has_body [OF page_fullName]
  by (simp add: setInputValue_def getInputValue_def lookup_store or_empty_def truthy_def
      strip_line_breaks_def line_break_def js_def)

section \<open>setButtonLoading and restore\<close>

lemma engine_store: "engine (store_element j e d) = engine d"
  by (simp add: store_element_def)

lemma replace_children_facts:
  "has_body (replace_children i s e d) = has_body d"
  "engine (replace_children i s e d) = engine d"
  "getElementById i (replace_children i s e d) = (if has_body d then Some e else None)"
  by (simp_all add: replace_children_def store_element_def getElementById_def)

lemma assign_innerHTML_found:
  assumes "getElementById i d = Some e"
  shows "getElementById i (assign_innerHTML i s d) = Some (innerHTML_assigned (engine d) s e)"
    and "engine (assign_innerHTML i s d) = engine d"
  using assms found_has_body [OF assms]
  by (simp_all add: assign_innerHTML_def replace_children_facts)

lemma assign_element_found:
  assumes "getElementById i d = Some e"
  shows "getElementById i (assign_element i f d) = Some (f e)"
    and "engine (assign_element i f d) = engine d"
  using assms found_has_body [OF assms]
  by (simp_all add: assign_element_def lookup_store engine_store)

lemma setButtonLoading_steps:
  fixes loadingText_opt :: "jsstring option"
  assumes "getElementById buttonId d = Some button"
  defines "busy \<equiv> (innerHTML_assigned (engine d)
                      (spinner @ or_default (js ''Loading...'') loadingText_opt) button)
                    \<lparr>el_disabled := True\<rparr>"
  shows "fst (setButtonLoading buttonId loadingText_opt d) = Some (restore_button buttonId (el_innerHTML button) (el_disabled button))"
    and "getElementById buttonId (snd (setButtonLoading buttonId loadingText_opt d)) = Some busy"
    and "getElementById buttonId
           (restore_button buttonId (el_innerHTML button) (el_disabled button) (snd (setButtonLoading buttonId loadingText_opt d)))
         = Some ((innerHTML_assigned (engine d) (el_innerHTML button) busy)
                  \<lparr>el_disabled := el_disabled button\<rparr>)"
proof -
  let ?text = "spinner @ or_default (js ''Loading...'') loadingText_opt"
  let ?d1 = "assign_innerHTML buttonId ?text d"
  let ?d2 = "assign_element buttonId (\<lambda>b. b\<lparr>el_disabled := True\<rparr>) ?d1"
  have call: "setButtonLoading buttonId loadingText_opt d = (Some (restore_button buttonId (el_innerHTML button) (el_disabled button)), ?d2)"
    using assms(1) by (simp add: setButtonLoading_def Let_def)
  have d1: "getElementById buttonId ?d1 = Some (innerHTML_assigned (engine d) ?text button)"
      "engine ?d1 = engine d"
    using assms(1) by (rule assign_innerHTML_found)+
  have d2: "getElementById buttonId ?d2 = Some busy" "engine ?d2 = engine d"
    using assign_element_found [OF d1(1)] d1(2) by (simp_all add: busy_def)
  have d3: "getElementById buttonId (assign_innerHTML buttonId (el_innerHTML button) ?d2)
              = Some (innerHTML_assigned (engine d) (el_innerHTML button) busy)"
    using assign_innerHTML_found(1) [OF d2(1)] d2(2) by simp
  have d4: "getElementById buttonId (restore_button buttonId (el_innerHTML button) (el_disabled button) ?d2)
              = Some ((innerHTML_assigned (engine d) (el_innerHTML button) busy)
                       \<lparr>el_disabled := el_disabled button\<rparr>)"
    unfolding restore_button_def using assign_element_found(1) [OF d3] by simp
  from call show "fst (setButtonLoading buttonId loadingText_opt d) = Some (restore_button buttonId (el_innerHTML button) (el_disabled button))"
    by simp
  from call d2(1) show "getElementById buttonId (snd (setButtonLoading buttonId loadingText_opt d)) = Some busy"
    by simp
  from call d4 show "getElementById buttonId
           (restore_button buttonId (el_innerHTML button) (el_disabled button) (snd (setButtonLoading buttonId loadingText_opt d)))
         = Some ((innerHTML_assigned (engine d) (el_innerHTML button) busy)
                  \<lparr>el_disabled := el_disabled button\<rparr>)"
    by simp
qed

text \<open>
  C10. For a \<open>buttonId\<close> whose element exists, \<open>LoadingUtils.setButtonLoading\<close>
  returns a handle, and the button is then disabled and reads as its \<open>innerHTML\<close> what the
  browser reads back after the spinner and the loading text were assigned. After \<open>restore()\<close>
  the \<open>disabled\<close> flag is what it was before the call, and \<open>innerHTML\<close> reads what the browser
  reads back after the captured \<open>innerHTML\<close> was assigned: the value before the call whenever
  that value reads back unchanged.
\<close>

theorem setButtonLoading_restore:
  assumes "getElementById buttonId d = Some button"
  shows "\<exists>restore busy restored.
           fst (setButtonLoading buttonId loadingText_opt d) = Some restore
         \<and> getElementById buttonId (snd (setButtonLoading buttonId loadingText_opt d)) = Some busy
         \<and> el_innerHTML busy
             = innerHTML_read (engine d) (el_tag button)
                 (spinner @ or_default (js ''Loading...'') loadingText_opt)
         \<and> el_disabled busy = True
         \<and> getElementById buttonId (restore (snd (setButtonLoading buttonId loadingText_opt d)))
             = Some restored
         \<and> el_disabled restored = el_disabled button
         \<and> el_innerHTML restored
             = innerHTML_read (engine d) (el_tag button) (el_innerHTML button)
         \<and> (innerHTML_read (engine d) (el_tag button) (el_innerHTML button) = el_innerHTML button
              \<longrightarrow> el_innerHTML restored = el_innerHTML button)"
  using setButtonLoading_steps [OF assms, of loadingText_opt]
  by (simp add: innerHTML_assigned_def)

lemma page_button:
  "getElementById (js ''saveBtn'') page
     = Some (blank\<lparr>el_tag := js ''BUTTON'', el_innerHTML := js ''Simpan''\<rparr>)"
  by (simp add: getElementById_def page_def js_def)

lemma page_code_button:
  "getElementById (js ''codeBtn'') page
     = Some (blank\<lparr>el_tag := js ''BUTTON'', el_innerHTML := js ''<pre>\<newline>x</pre>''\<rparr>)"
  by (simp add: getElementById_def page_def js_def)

lemma page_reads:
  "innerHTML_read (engine page) tag (js ''Simpan'') = js ''Simpan''"
  "innerHTML_read (engine page) tag (js ''<pre>\<newline>x</pre>'') = js ''<pre>x</pre>''"
  by (simp_all add: page_def sample_engine_def js_def)

theorem setButtonLoading_restore_witness:
  "getElementById (js ''saveBtn'') page
     = Some (blank\<lparr>el_tag := js ''BUTTON'', el_innerHTML := js ''Simpan''\<rparr>)
   \<and> innerHTML_read (engine page) (js ''BUTTON'') (js ''Simpan'') = js ''Simpan''
   \<and> (\<exists>restore busy restored.
         fst (setButtonLoading (js ''saveBtn'') None page) = Some restore
       \<and> getElementById (js ''saveBtn'') (snd (setButtonLoading (js ''saveBtn'') None page))
           = Some busy
       \<and> el_disabled busy = True
       \<and> getElementById (js ''saveBtn'')
            (restore (snd (setButtonLoading (js ''saveBtn'') None page))) = Some restored
       \<and> el_disabled restored = False
       \<and> el_innerHTML restored = js ''Simpan'')"
  using setButtonLoading_restore [OF page_button, of None] page_button page_reads(1)
  by (auto simp: blank_def)

theorem setButtonLoading_restore_counterexample:
  "getElementById (js ''codeBtn'') page
     = Some (blank\<lparr>el_tag := js ''BUTTON'', el_innerHTML := js ''<pre>\<newline>x</pre>''\<rparr>)
   \<and> (\<exists>restore restored.
         fst (setButtonLoading (js ''codeBtn'') None page) = Some restore
       \<and> getElementById (js ''codeBtn'')
            (restore (snd (setButtonLoading (js ''codeBtn'') None page))) = Some restored
       \<and> el_innerHTML restored = js ''<pre>x</pre>''
       \<and> el_innerHTML restored \<noteq> js ''<pre>\<newline>x</pre>'')"
proof -
  have differ: "js ''<pre>x</pre>'' \<noteq> js ''<pre>\<newline>x</pre>''"
    by (simp add: js_def)
  from setButtonLoading_steps(1,3) [OF page_code_button, of None] page_reads(2) differ
    page_code_button
  show ?thesis
    by (simp add: innerHTML_assigned_def blank_def)
qed

section \<open>showNotification and its timers\<close>

lemma assign_created_fields:
  "body_children (assign_created n f d) = body_children d"
  "timers (assign_created n f d) = timers d"
  "elements (assign_created n f d) = elements d"
  "body_overflow (assign_created n f d) = body_overflow d"
  "created_count (assign_created n f d) = created_count d"
  "has_body (assign_created n f d) = has_body d"
  "engine (assign_created n f d) = engine d"
  "created (assign_created n f d) k = (if k = n then map_option f (created d n) else created d k)"
  by (simp_all add: assign_created_def split: option.split)

lemma has_parentNode_assign:
  "has_parentNode k (assign_created n f d) = has_parentNode k d"
  by (simp add: has_parentNode_def assign_created_fields)









section \<open>What setFormData leaves alone\<close>

lemma then_run_rel:
  assumes "\<And>a b c. R a b \<Longrightarrow> R b c \<Longrightarrow> R a c"
    and "\<And>a. R a (snd (s a))" and "\<And>a. R a (snd (t a))"
  shows "R d (snd (then_run s t d))"
proof (cases "s d")
  case (Pair r d')
  with assms(2) [of d] have first: "R d d'" by simp
  show ?thesis
  proof (cases r)
    case (Inl x)
    with Pair first show ?thesis by (simp add: then_run_def)
  next
    case (Inr u)
    with Pair have "snd (then_run s t d) = snd (t d')" by (simp add: then_run_def)
    with assms(1) [OF first assms(3) [of d']] show ?thesis by simp
  qed
qed

lemma setFormData_rel:
  assumes trans: "\<And>a b c. R a b \<Longrightarrow> R b c \<Longrightarrow> R a c"
    and "\<And>a. R a (snd (if_truthy (fullName_opt data) (setInputValue (js ''modalFullName'')) a))"
    and "\<And>a. R a (snd (if_truthy (position_opt data) (setInputValue (js ''modalPosition'')) a))"
    and "\<And>a. R a (snd (if_truthy (email_opt data) (setInputValue (js ''modalEmail'')) a))"
    and "\<And>a. R a (snd (if_truthy (phone_opt data) (setInputValue (js ''modalPhone'')) a))"
    and "\<And>a. R a (snd (if_truthy (location_opt data) (setInputValue (js ''modalLocation'')) a))"
    and "\<And>a. R a (snd (if_truthy (address_opt data) (setTextareaValue (js ''modalAddress'')) a))"
    and "\<And>a. R a (snd (if_defined (twoFactorAuth_opt data)
                          (setCheckboxValue (js ''modalTwoFactorAuth'')) a))"
    and "\<And>a. R a (snd (if_truthy_total (profileImage_opt data)
                          (setImageSrc (js ''modalProfileImage'')) a))"
  shows "R d (snd (setFormData data d))"
  unfolding setFormData_def
  by (intro then_run_rel [where R = R] assms(2-9)) (erule (1) trans)+

lemma statement_other:
  assumes "i \<noteq> j"
  shows "getElementById i (snd (if_truthy x (setInputValue j) d)) = getElementById i d"
    and "getElementById i (snd (if_truthy x (setTextareaValue j) d)) = getElementById i d"
    and "getElementById i (snd (if_truthy_total x (setImageSrc j) d)) = getElementById i d"
    and "getElementById i (snd (if_defined y (setCheckboxValue j) d)) = getElementById i d"
  using assms
  by (auto simp: if_truthy_def if_truthy_total_def if_defined_def setInputValue_def
      setTextareaValue_def setImageSrc_def setCheckboxValue_def lookup_store getElementById_def
      store_element_def split: option.splits sum.splits if_splits)

lemma statement_falsy:
  assumes "falsy x"
  shows "snd (if_truthy x setter d) = d" and "snd (if_truthy_total x setter' d) = d"
  using assms by (cases x; simp add: if_truthy_def if_truthy_total_def falsy_def)+

lemma form_ids:
  "distinct [js ''modalFullName'', js ''modalPosition'', js ''modalEmail'', js ''modalPhone'',
             js ''modalLocation'', js ''modalAddress'', js ''modalTwoFactorAuth'',
             js ''modalProfileImage'']"
  by code_simp

lemma form_ids_differ:
  "js ''modalFullName'' \<noteq> js ''modalPosition''" "js ''modalFullName'' \<noteq> js ''modalEmail''"
  "js ''modalFullName'' \<noteq> js ''modalPhone''" "js ''modalFullName'' \<noteq> js ''modalLocation''"
  "js ''modalFullName'' \<noteq> js ''modalAddress''" "js ''modalFullName'' \<noteq> js ''modalTwoFactorAuth''"
  "js ''modalFullName'' \<noteq> js ''modalProfileImage''"
  "js ''modalPosition'' \<noteq> js ''modalEmail''" "js ''modalPosition'' \<noteq> js ''modalPhone''"
  "js ''modalPosition'' \<noteq> js ''modalLocation''" "js ''modalPosition'' \<noteq> js ''modalAddress''"
  "js ''modalPosition'' \<noteq> js ''modalTwoFactorAuth''" "js ''modalPosition'' \<noteq> js ''modalProfileImage''"
  "js ''modalEmail'' \<noteq> js ''modalPhone''" "js ''modalEmail'' \<noteq> js ''modalLocation''"
  "js ''modalEmail'' \<noteq> js ''modalAddress''" "js ''modalEmail'' \<noteq> js ''modalTwoFactorAuth''"
  "js ''modalEmail'' \<noteq> js ''modalProfileImage''"
  "js ''modalPhone'' \<noteq> js ''modalLocation''" "js ''modalPhone'' \<noteq> js ''modalAddress''"
  "js ''modalPhone'' \<noteq> js ''modalTwoFactorAuth''" "js ''modalPhone'' \<noteq> js ''modalProfileImage''"
  "js ''modalLocation'' \<noteq> js ''modalAddress''" "js ''modalLocation'' \<noteq> js ''modalTwoFactorAuth''"
  "js ''modalLocation'' \<noteq> js ''modalProfileImage''"
  "js ''modalAddress'' \<noteq> js ''modalTwoFactorAuth''" "js ''modalAddress'' \<noteq> js ''modalProfileImage''"
  "js ''modalTwoFactorAuth'' \<noteq> js ''modalProfileImage''"
  using form_ids by simp_all

lemmas form_ids_apart = form_ids_differ form_ids_differ [symmetric]

lemma then_run_completed:
  assumes "fst (then_run s t d) = Inr ()"
  obtains d' where "s d = (Inr (), d')" and "then_run s t d = t d'"
  using assms by (cases "s d") (auto simp: then_run_def split: sum.splits)

lemma statement_value:
  assumes "(j, x) \<in> set fs"
  shows "(\<forall>eb. getElementById i (snd (if_truthy x (setInputValue j) a)) = Some eb \<longrightarrow>
            (\<exists>ea. getElementById i a = Some ea \<and> el_value_mode eb = el_value_mode ea
               \<and> (el_value eb = el_value ea
                  \<or> (\<exists>v. (i, Some v) \<in> set fs \<and> truthy v
                        \<and> assign_value (el_value_mode ea) v = Inr (el_value eb)))))
       \<and> (getElementById i (snd (if_truthy x (setInputValue j) a)) = None \<longrightarrow>
            getElementById i a = None)"
    and "(\<forall>eb. getElementById i (snd (if_truthy x (setTextareaValue j) a)) = Some eb \<longrightarrow>
            (\<exists>ea. getElementById i a = Some ea \<and> el_value_mode eb = el_value_mode ea
               \<and> (el_value eb = el_value ea
                  \<or> (\<exists>v. (i, Some v) \<in> set fs \<and> truthy v
                        \<and> assign_value (el_value_mode ea) v = Inr (el_value eb)))))
       \<and> (getElementById i (snd (if_truthy x (setTextareaValue j) a)) = None \<longrightarrow>
            getElementById i a = None)"
  using assms
  by (auto simp: if_truthy_def setInputValue_def setTextareaValue_def lookup_store
      split: option.splits sum.splits if_splits dest: found_has_body)

lemma statement_no_value:
  "(\<forall>eb. getElementById i (snd (if_defined y (setCheckboxValue j) a)) = Some eb \<longrightarrow>
      (\<exists>ea. getElementById i a = Some ea \<and> el_value_mode eb = el_value_mode ea
         \<and> (el_value eb = el_value ea \<or> W ea eb)))
   \<and> (getElementById i (snd (if_defined y (setCheckboxValue j) a)) = None \<longrightarrow>
        getElementById i a = None)"
  "(\<forall>eb. getElementById i (snd (if_truthy_total x (setImageSrc j) a)) = Some eb \<longrightarrow>
      (\<exists>ea. getElementById i a = Some ea \<and> el_value_mode eb = el_value_mode ea
         \<and> (el_value eb = el_value ea \<or> W ea eb)))
   \<and> (getElementById i (snd (if_truthy_total x (setImageSrc j) a)) = None \<longrightarrow>
        getElementById i a = None)"
  by (auto simp: if_defined_def if_truthy_total_def setCheckboxValue_def setImageSrc_def
      lookup_store split: option.splits if_splits dest: found_has_body)

lemma setFormData_value:
  "(\<forall>eb. getElementById i (snd (setFormData data d)) = Some eb \<longrightarrow>
      (\<exists>ea. getElementById i d = Some ea \<and> el_value_mode eb = el_value_mode ea
         \<and> (el_value eb = el_value ea
            \<or> (\<exists>v. (i, Some v) \<in> set (text_fields data) \<and> truthy v
                  \<and> assign_value (el_value_mode ea) v = Inr (el_value eb)))))
   \<and> (getElementById i (snd (setFormData data d)) = None \<longrightarrow> getElementById i d = None)"
proof -
  define T where "T = (\<lambda>a b.
      (\<forall>eb. getElementById i b = Some eb \<longrightarrow>
         (\<exists>ea. getElementById i a = Some ea \<and> el_value_mode eb = el_value_mode ea
            \<and> (el_value eb = el_value ea
               \<or> (\<exists>v. (i, Some v) \<in> set (text_fields data) \<and> truthy v
                     \<and> assign_value (el_value_mode ea) v = Inr (el_value eb)))))
      \<and> (getElementById i b = None \<longrightarrow> getElementById i a = None))"
  have trans: "T a c" if ab: "T a b" and bc: "T b c" for a b c
  proof -
    have "\<exists>ea. getElementById i a = Some ea \<and> el_value_mode ec = el_value_mode ea
           \<and> (el_value ec = el_value ea
              \<or> (\<exists>v. (i, Some v) \<in> set (text_fields data) \<and> truthy v
                    \<and> assign_value (el_value_mode ea) v = Inr (el_value ec)))"
      if c: "getElementById i c = Some ec" for ec
    proof -
      from bc c obtain eb where eb: "getElementById i b = Some eb"
          "el_value_mode ec = el_value_mode eb"
          "el_value ec = el_value eb
           \<or> (\<exists>v. (i, Some v) \<in> set (text_fields data) \<and> truthy v
                 \<and> assign_value (el_value_mode eb) v = Inr (el_value ec))"
        unfolding T_def by blast
      from ab eb(1) obtain ea where ea: "getElementById i a = Some ea"
          "el_value_mode eb = el_value_mode ea"
          "el_value eb = el_value ea
           \<or> (\<exists>v. (i, Some v) \<in> set (text_fields data) \<and> truthy v
                 \<and> assign_value (el_value_mode ea) v = Inr (el_value eb))"
        unfolding T_def by blast
      from eb(2,3) ea show ?thesis by auto
    qed
    moreover have "getElementById i a = None" if "getElementById i c = None"
      using ab bc that by (simp add: T_def)
    ultimately show ?thesis unfolding T_def by blast
  qed
  have fields: "(js ''modalFullName'', fullName_opt data) \<in> set (text_fields data)"
      "(js ''modalPosition'', position_opt data) \<in> set (text_fields data)"
      "(js ''modalEmail'', email_opt data) \<in> set (text_fields data)"
      "(js ''modalPhone'', phone_opt data) \<in> set (text_fields data)"
      "(js ''modalLocation'', location_opt data) \<in> set (text_fields data)"
      "(js ''modalAddress'', address_opt data) \<in> set (text_fields data)"
    by (simp_all add: text_fields_def)
  have "T d (snd (setFormData data d))"
  proof (rule setFormData_rel [where R = T])
    show "T a c" if "T a b" "T b c" for a b c using that by (rule trans)
  qed (unfold T_def, (rule statement_value [OF fields(1)] statement_value [OF fields(2)]
        statement_value [OF fields(3)] statement_value [OF fields(4)]
        statement_value [OF fields(5)] statement_value [OF fields(6)]
        statement_no_value)+)
  then show ?thesis unfolding T_def .
qed

lemma then_run_steps:
  assumes "fst (then_run s t d) = Inr ()"
  shows "fst (s d) = Inr ()" and "fst (t (snd (s d))) = Inr ()"
    and "snd (then_run s t d) = snd (t (snd (s d)))"
  using assms by (cases "s d"; auto simp: then_run_def split: sum.splits)+

lemma setFormData_checked:
  assumes completed: "fst (setFormData data d) = Inr ()"
    and given: "twoFactorAuth_opt data = Some c"
    and found: "getElementById (js ''modalTwoFactorAuth'') d = Some e"
  shows "getElementById (js ''modalTwoFactorAuth'') (snd (setFormData data d))
           = Some (e\<lparr>el_checked := c\<rparr>)"
proof -
  let ?box = "js ''modalTwoFactorAuth''"
  let ?s1 = "if_truthy (fullName_opt data) (setInputValue (js ''modalFullName''))"
  let ?s2 = "if_truthy (position_opt data) (setInputValue (js ''modalPosition''))"
  let ?s3 = "if_truthy (email_opt data) (setInputValue (js ''modalEmail''))"
  let ?s4 = "if_truthy (phone_opt data) (setInputValue (js ''modalPhone''))"
  let ?s5 = "if_truthy (location_opt data) (setInputValue (js ''modalLocation''))"
  let ?s6 = "if_truthy (address_opt data) (setTextareaValue (js ''modalAddress''))"
  let ?s7 = "if_defined (twoFactorAuth_opt data) (setCheckboxValue ?box)"
  let ?s8 = "if_truthy_total (profileImage_opt data) (setImageSrc (js ''modalProfileImage''))"
  let ?r7 = "then_run ?s7 ?s8"
  let ?r6 = "then_run ?s6 ?r7"
  let ?r5 = "then_run ?s5 ?r6"
  let ?r4 = "then_run ?s4 ?r5"
  let ?r3 = "then_run ?s3 ?r4"
  let ?r2 = "then_run ?s2 ?r3"
  let ?d1 = "snd (?s1 d)"
  let ?d2 = "snd (?s2 ?d1)"
  let ?d3 = "snd (?s3 ?d2)"
  let ?d4 = "snd (?s4 ?d3)"
  let ?d5 = "snd (?s5 ?d4)"
  let ?d6 = "snd (?s6 ?d5)"
  let ?d7 = "snd (?s7 ?d6)"
  note apart = form_ids_apart
  have whole: "setFormData data = then_run ?s1 ?r2"
    by (simp add: setFormData_def)
  from completed have c1: "fst (?r2 ?d1) = Inr ()" "snd (setFormData data d) = snd (?r2 ?d1)"
    unfolding whole by (rule then_run_steps)+
  from c1(1) have c2: "fst (?r3 ?d2) = Inr ()" "snd (?r2 ?d1) = snd (?r3 ?d2)"
    by (rule then_run_steps)+
  from c2(1) have c3: "fst (?r4 ?d3) = Inr ()" "snd (?r3 ?d2) = snd (?r4 ?d3)"
    by (rule then_run_steps)+
  from c3(1) have c4: "fst (?r5 ?d4) = Inr ()" "snd (?r4 ?d3) = snd (?r5 ?d4)"
    by (rule then_run_steps)+
  from c4(1) have c5: "fst (?r6 ?d5) = Inr ()" "snd (?r5 ?d4) = snd (?r6 ?d5)"
    by (rule then_run_steps)+
  from c5(1) have c6: "fst (?r7 ?d6) = Inr ()" "snd (?r6 ?d5) = snd (?r7 ?d6)"
    by (rule then_run_steps)+
  from c6(1) have c7: "snd (?r7 ?d6) = snd (?s8 ?d7)"
    by (rule then_run_steps)
  from c1(2) c2(2) c3(2) c4(2) c5(2) c6(2) c7
  have final: "snd (setFormData data d) = snd (?s8 ?d7)" by simp
  have "getElementById ?box ?d6 = Some e"
    using found by (simp add: statement_other apart)
  then have "getElementById ?box ?d7 = Some (e\<lparr>el_checked := c\<rparr>)"
    using given found_has_body [of ?box ?d6 e]
    by (simp add: if_defined_def setCheckboxValue_def lookup_store)
  then show ?thesis
    unfolding final by (simp add: statement_other apart)
qed

text \<open>
  C8. \<open>ProfileFormUtils.setFormData\<close> leaves the element of a field unchanged when
  the value given for that field is absent, the empty string or otherwise falsy (for
  \<open>twoFactorAuth\<close>: when it is \<open>undefined\<close>); this holds also when a later statement throws.
  A given \<open>twoFactorAuth\<close>, \<open>false\<close> included, is written to the checkbox when the call
  returns. A text field whose value is empty afterwards was empty before, or was given
  a truthy value that the element's value sanitisation turns into the empty string; on an
  element that keeps the value verbatim, it was empty before.
\<close>

theorem setFormData_frame:
  "(falsy (fullName_opt data) \<longrightarrow>
      getElementById (js ''modalFullName'') (snd (setFormData data d))
        = getElementById (js ''modalFullName'') d)
   \<and> (falsy (position_opt data) \<longrightarrow>
      getElementById (js ''modalPosition'') (snd (setFormData data d))
        = getElementById (js ''modalPosition'') d)
   \<and> (falsy (email_opt data) \<longrightarrow>
      getElementById (js ''modalEmail'') (snd (setFormData data d))
        = getElementById (js ''modalEmail'') d)
   \<and> (falsy (phone_opt data) \<longrightarrow>
      getElementById (js ''modalPhone'') (snd (setFormData data d))
        = getElementById (js ''modalPhone'') d)
   \<and> (falsy (location_opt data) \<longrightarrow>
      getElementById (js ''modalLocation'') (snd (setFormData data d))
        = getElementById (js ''modalLocation'') d)
   \<and> (falsy (address_opt data) \<longrightarrow>
      getElementById (js ''modalAddress'') (snd (setFormData data d))
        = getElementById (js ''modalAddress'') d)
   \<and> (twoFactorAuth_opt data = None \<longrightarrow>
      getElementById (js ''modalTwoFactorAuth'') (snd (setFormData data d))
        = getElementById (js ''modalTwoFactorAuth'') d)
   \<and> (falsy (profileImage_opt data) \<longrightarrow>
      getElementById (js ''modalProfileImage'') (snd (setFormData data d))
        = getElementById (js ''modalProfileImage'') d)
   \<and> (fst (setFormData data d) = Inr () \<and> twoFactorAuth_opt data = Some c
        \<and> getElementById (js ''modalTwoFactorAuth'') d = Some e \<longrightarrow>
      getElementById (js ''modalTwoFactorAuth'') (snd (setFormData data d))
        = Some (e\<lparr>el_checked := c\<rparr>))
   \<and> (getInputValue ident (snd (setFormData data d)) = [] \<longrightarrow>
        getInputValue ident d = []
        \<or> (\<exists>v e'. (ident, Some v) \<in> set (text_fields data) \<and> truthy v
              \<and> getElementById ident d = Some e'
              \<and> assign_value (el_value_mode e') v = Inr []))
   \<and> (getTextareaValue ident (snd (setFormData data d)) = [] \<longrightarrow>
        getTextareaValue ident d = []
        \<or> (\<exists>v e'. (ident, Some v) \<in> set (text_fields data) \<and> truthy v
              \<and> getElementById ident d = Some e'
              \<and> assign_value (el_value_mode e') v = Inr []))
   \<and> (getElementById ident d = Some e \<and> el_value_mode e = Verbatim
        \<and> getInputValue ident (snd (setFormData data d)) = [] \<longrightarrow>
        getInputValue ident d = [])"
proof -
  note rel = setFormData_rel and same = statement_other statement_falsy form_ids_apart
  have fullName: "getElementById (js ''modalFullName'') (snd (setFormData data d))
        = getElementById (js ''modalFullName'') d" if "falsy (fullName_opt data)"
    using that
    by (intro rel [where R = "\<lambda>a b. getElementById (js ''modalFullName'') b
          = getElementById (js ''modalFullName'') a"]) (simp_all add: same)
  have position: "getElementById (js ''modalPosition'') (snd (setFormData data d))
        = getElementById (js ''modalPosition'') d" if "falsy (position_opt data)"
    using that
    by (intro rel [where R = "\<lambda>a b. getElementById (js ''modalPosition'') b
          = getElementById (js ''modalPosition'') a"]) (simp_all add: same)
  have email: "getElementById (js ''modalEmail'') (snd (setFormData data d))
        = getElementById (js ''modalEmail'') d" if "falsy (email_opt data)"
    using that
    by (intro rel [where R = "\<lambda>a b. getElementById (js ''modalEmail'') b
          = getElementById (js ''modalEmail'') a"]) (simp_all add: same)
  have phone: "getElementById (js ''modalPhone'') (snd (setFormData data d))
        = getElementById (js ''modalPhone'') d" if "falsy (phone_opt data)"
    using that
    by (intro rel [where R = "\<lambda>a b. getElementById (js ''modalPhone'') b
          = getElementById (js ''modalPhone'') a"]) (simp_all add: same)
  have location: "getElementById (js ''modalLocation'') (snd (setFormData data d))
        = getElementById (js ''modalLocation'') d" if "falsy (location_opt data)"
    using that
    by (intro rel [where R = "\<lambda>a b. getElementById (js ''modalLocation'') b
          = getElementById (js ''modalLocation'') a"]) (simp_all add: same)
  have address: "getElementById (js ''modalAddress'') (snd (setFormData data d))
        = getElementById (js ''modalAddress'') d" if "falsy (address_opt data)"
    using that
    by (intro rel [where R = "\<lambda>a b. getElementById (js ''modalAddress'') b
          = getElementById (js ''modalAddress'') a"]) (simp_all add: same)
  have twoFactor: "getElementById (js ''modalTwoFactorAuth'') (snd (setFormData data d))
        = getElementById (js ''modalTwoFactorAuth'') d" if "twoFactorAuth_opt data = None"
    using that
    by (intro rel [where R = "\<lambda>a b. getElementById (js ''modalTwoFactorAuth'') b
          = getElementById (js ''modalTwoFactorAuth'') a"])
      (simp_all add: same if_defined_def)
  have image: "getElementById (js ''modalProfileImage'') (snd (setFormData data d))
        = getElementById (js ''modalProfileImage'') d" if "falsy (profileImage_opt data)"
    using that
    by (intro rel [where R = "\<lambda>a b. getElementById (js ''modalProfileImage'') b
          = getElementById (js ''modalProfileImage'') a"]) (simp_all add: same)
  have checked: "getElementById (js ''modalTwoFactorAuth'') (snd (setFormData data d))
        = Some (e\<lparr>el_checked := c\<rparr>)"
    if "fst (setFormData data d) = Inr () \<and> twoFactorAuth_opt data = Some c
        \<and> getElementById (js ''modalTwoFactorAuth'') d = Some e"
    using that setFormData_checked by blast
  have cleared: "getInputValue ident d = []
        \<or> (\<exists>v e'. (ident, Some v) \<in> set (text_fields data) \<and> truthy v
              \<and> getElementById ident d = Some e'
              \<and> assign_value (el_value_mode e') v = Inr [])"
    if empty: "getInputValue ident (snd (setFormData data d)) = []"
  proof (cases "getElementById ident (snd (setFormData data d))")
    case None
    with setFormData_value [of ident data d] have "getElementById ident d = None" by simp
    then show ?thesis by (simp add: getInputValue_def or_empty_def)
  next
    case (Some eb)
    with empty have "el_value eb = []"
      by (simp add: getInputValue_def or_empty_def truthy_def split: if_splits)
    with Some setFormData_value [of ident data d] show ?thesis
      by (auto simp: getInputValue_def or_empty_def truthy_def)
  qed
  have area: "getTextareaValue i x = getInputValue i x" for i x
    by (simp add: getTextareaValue_def getInputValue_def)
  have verbatim: "getInputValue ident d = []"
    if "getElementById ident d = Some e \<and> el_value_mode e = Verbatim
        \<and> getInputValue ident (snd (setFormData data d)) = []"
    using cleared that by (auto simp: truthy_def)
  from fullName position email phone location address twoFactor image checked
    cleared verbatim
  show ?thesis unfolding area by blast
qed

lemma page_found:
  "getElementById (js ''modalFullName'') page
     = Some (blank\<lparr>el_tag := js ''INPUT'', el_value_mode := Text, el_value := js ''Siti''\<rparr>)"
  "getElementById (js ''modalEmail'') page
     = Some (blank\<lparr>el_tag := js ''INPUT'', el_value_mode := Text, el_value := js ''  ''\<rparr>)"
  "getElementById (js ''modalTwoFactorAuth'') page = Some (blank\<lparr>el_tag := js ''INPUT''\<rparr>)"
  "getElementById (js ''modalPhone'') page = None"
  "getElementById (js ''modalPosition'') page = None"
  "getElementById (js ''modalLocation'') page = None"
  "getElementById (js ''modalAddress'') page = None"
  "getElementById (js ''modalProfileImage'') page = None"
  by (simp_all add: getElementById_def page_def js_def)

lemma page_tick:
  "fst (setFormData \<lparr>fullName_opt = Some [], position_opt = None, email_opt = Some [],
           phone_opt = None, location_opt = None, address_opt = None,
           twoFactorAuth_opt = Some True, profileImage_opt = None\<rparr> page) = Inr ()"
  by (simp add: setFormData_def then_run_def if_truthy_def if_truthy_total_def if_defined_def
      truthy_def)

theorem setFormData_frame_witness:
  "falsy (Some []) \<and> falsy None
   \<and> getElementById (js ''modalFullName'')
        (snd (setFormData \<lparr>fullName_opt = Some [], position_opt = None, email_opt = Some [],
           phone_opt = None, location_opt = None, address_opt = None,
           twoFactorAuth_opt = None, profileImage_opt = None\<rparr> page))
       = Some (blank\<lparr>el_tag := js ''INPUT'', el_value_mode := Text, el_value := js ''Siti''\<rparr>)
   \<and> getElementById (js ''modalEmail'')
        (snd (setFormData \<lparr>fullName_opt = Some [], position_opt = None, email_opt = Some [],
           phone_opt = None, location_opt = None, address_opt = None,
           twoFactorAuth_opt = None, profileImage_opt = None\<rparr> page))
       = Some (blank\<lparr>el_tag := js ''INPUT'', el_value_mode := Text, el_value := js ''  ''\<rparr>)
   \<and> getElementById (js ''modalTwoFactorAuth'')
        (snd (setFormData \<lparr>fullName_opt = Some [], position_opt = None, email_opt = Some [],
           phone_opt = None, location_opt = None, address_opt = None,
           twoFactorAuth_opt = None, profileImage_opt = None\<rparr> page))
       = Some (blank\<lparr>el_tag := js ''INPUT''\<rparr>)
   \<and> fst (setFormData \<lparr>fullName_opt = Some [], position_opt = None, email_opt = Some [],
           phone_opt = None, location_opt = None, address_opt = None,
           twoFactorAuth_opt = Some True, profileImage_opt = None\<rparr> page) = Inr ()
   \<and> getElementById (js ''modalTwoFactorAuth'')
        (snd (setFormData \<lparr>fullName_opt = Some [], position_opt = None, email_opt = Some [],
           phone_opt = None, location_opt = None, address_opt = None,
           twoFactorAuth_opt = Some True, profileImage_opt = None\<rparr> page))
       = Some (blank\<lparr>el_tag := js ''INPUT'', el_checked := True\<rparr>)
   \<and> getInputValue (js ''modalTwoFactorAuth'')
        (snd (setFormData \<lparr>fullName_opt = Some [], position_opt = None, email_opt = Some [],
           phone_opt = None, location_opt = None, address_opt = None,
           twoFactorAuth_opt = None, profileImage_opt = None\<rparr> page)) = []
   \<and> el_value_mode (blank\<lparr>el_tag := js ''INPUT''\<rparr>) = Verbatim
   \<and> getInputValue (js ''modalTwoFactorAuth'') page = []"
proof -
  let ?quiet = "\<lparr>fullName_opt = Some [], position_opt = None, email_opt = Some [],
      phone_opt = None, location_opt = None, address_opt = None,
      twoFactorAuth_opt = None, profileImage_opt = None\<rparr>"
  let ?tick = "\<lparr>fullName_opt = Some [], position_opt = None, email_opt = Some [],
      phone_opt = None, location_opt = None, address_opt = None,
      twoFactorAuth_opt = Some True, profileImage_opt = None\<rparr>"
  let ?box = "blank\<lparr>el_tag := js ''INPUT''\<rparr>"
  have falsies: "falsy (Some [])" "falsy None"
    by (simp_all add: falsy_def truthy_def)
  have plain: "el_value_mode ?box = Verbatim" "el_value ?box = []"
    by (simp_all add: blank_def)
  note quiet = setFormData_frame [of ?quiet page True ?box "js ''modalTwoFactorAuth''"]
  note tick = setFormData_frame [of ?tick page True ?box "js ''modalTwoFactorAuth''"]
  have unchanged: "getElementById (js ''modalTwoFactorAuth'') (snd (setFormData ?quiet page))
      = Some ?box"
    using quiet page_found(3) by simp
  then have empty: "getInputValue (js ''modalTwoFactorAuth'') (snd (setFormData ?quiet page)) = []"
    using plain by (simp add: getInputValue_def or_empty_def)
  from quiet tick falsies page_found page_tick plain unchanged empty show ?thesis
    by simp
qed

theorem setFormData_clears_counterexample:
  "truthy [0x000A]
   \<and> getInputValue (js ''modalFullName'') page = js ''Siti''
   \<and> js ''Siti'' \<noteq> []
   \<and> getInputValue (js ''modalFullName'')
        (snd (setFormData \<lparr>fullName_opt = Some [0x000A], position_opt = None, email_opt = None,
           phone_opt = None, location_opt = None, address_opt = None,
           twoFactorAuth_opt = None, profileImage_opt = None\<rparr> page)) = []"
proof -
  let ?data = "\<lparr>fullName_opt = Some [0x000A], position_opt = None, email_opt = None,
      phone_opt = None, location_opt = None, address_opt = None,
      twoFactorAuth_opt = None, profileImage_opt = None\<rparr>"
  have before: "getInputValue (js ''modalFullName'') page = js ''Siti''" "js ''Siti'' \<noteq> []"
    using page_found(1) by (simp_all add: getInputValue_def or_empty_def truthy_def js_def)
  have "snd (setFormData ?data page)
      = snd (setInputValue (js ''modalFullName'') [0x000A] page)"
    by (simp add: setFormData_def then_run_def if_truthy_def if_truthy_total_def if_defined_def
        truthy_def split: prod.split sum.split)
  moreover have "getInputValue (js ''modalFullName'')
      (snd (setInputValue (js ''modalFullName'') [0x000A] page)) = []"
    using page_found(1) found_has_body [OF page_found(1)]
    by (simp add: setInputValue_def getInputValue_def lookup_store or_empty_def
        strip_line_breaks_def line_break_def)
  ultimately show ?thesis
    using before by (simp add: truthy_def)
qed

end
